theory Spec2Isabelle
  imports Complex_Main "HOL-Library.Word" "HOL-Library.Sublist" "HOL-Library.Char_ord"
    "HOL-Library.List_Lexorder"
begin

section \<open>Python values, exceptions, logging\<close>

text \<open>
  The exceptions that the modelled code raises itself or receives from numpy, scipy, pandas
  and h5py.  \<open>PyException\<close> is the bare \<^verbatim>\<open>raise Exception\<close> of \<^verbatim>\<open>bin_type_check\<close>: it
  carries no arguments.  The other constructors carry the message of the exception.
\<close>

datatype error =
    PyException
  | TypeError string
  | IndexError string
  | KeyError string
  | AttributeError string
  | FileExistsError string
  | ValueError string

type_synonym 'a result = "error + 'a"

text \<open>The arguments of an exception (\<^verbatim>\<open>e.args\<close>), which make up its message.\<close>

fun exception_args :: "error \<Rightarrow> string list" where
  "exception_args PyException = []"
| "exception_args (TypeError m) = [m]"
| "exception_args (IndexError m) = [m]"
| "exception_args (KeyError m) = [m]"
| "exception_args (AttributeError m) = [m]"
| "exception_args (FileExistsError m) = [m]"
| "exception_args (ValueError m) = [m]"

text \<open>
  A method that may raise after it has already mutated its object returns the outcome
  together with the state it leaves behind.  \<open>then_do\<close> sequences two statements: the
  second one runs only when the first one did not raise.
\<close>

definition then_do :: "'a result \<times> 's \<Rightarrow> ('s \<Rightarrow> 'b result \<times> 's) \<Rightarrow> 'b result \<times> 's" where
  "then_do rs f = (case rs of (Inl e, s) \<Rightarrow> (Inl e, s) | (Inr _, s) \<Rightarrow> f s)"

datatype level = INFO | ERROR

text \<open>Python's \<^verbatim>\<open>str\<close> on integers, used by f-strings and by \<^verbatim>\<open>astype(str)\<close>.\<close>

fun str_nat :: "nat \<Rightarrow> string" where
  "str_nat n =
     (if n < 10 then [char_of (48 + n)]
      else str_nat (n div 10) @ [char_of (48 + n mod 10)])"

declare str_nat.simps [simp del]

definition str_int :: "int \<Rightarrow> string" where
  "str_int i = (if i < 0 then CHR ''-'' # str_nat (nat (- i)) else str_nat (nat i))"

text \<open>
  Array elements.  An integer array holds Python/numpy integers; a float array holds
  IEEE-754 binary64 values, kept as their 64-bit patterns, so that equality of two
  stored floats is equality bit for bit.
\<close>

type_synonym float64 = "64 word"

datatype scalar = IntV int | FloatV float64

text \<open>
  The values a caller can pass where the code tests \<^verbatim>\<open>isinstance(name, np.ndarray)\<close>.
\<close>

datatype pyval =
    PyNone
  | PyStr string
  | PyInt int
  | PyList "pyval list"
  | Ndarray "string list"

section \<open>numpy indexing\<close>

text \<open>
  \<^verbatim>\<open>a[index]\<close> for a list of integers: every index \<open>i\<close> must satisfy \<open>-n \<le> i < n\<close>,
  negative indices count from the end, and the first index out of range raises IndexError.
\<close>

definition py_index :: "nat \<Rightarrow> int \<Rightarrow> nat option" where
  "py_index n i =
     (if 0 \<le> i \<and> i < int n then Some (nat i)
      else if - int n \<le> i \<and> i < 0 then Some (nat (int n + i))
      else None)"

definition out_of_bounds :: "int \<Rightarrow> nat \<Rightarrow> nat \<Rightarrow> error" where
  "out_of_bounds i axis n =
     IndexError (''index '' @ str_int i @ '' is out of bounds for axis '' @ str_nat axis
                 @ '' with size '' @ str_nat n)"

fun getitem_axis :: "nat \<Rightarrow> 'a list \<Rightarrow> int list \<Rightarrow> 'a list result" where
  "getitem_axis axis a [] = Inr []"
| "getitem_axis axis a (i # ix) =
     (case py_index (length a) i of
        None \<Rightarrow> Inl (out_of_bounds i axis (length a))
      | Some k \<Rightarrow>
          (case getitem_axis axis a ix of Inl e \<Rightarrow> Inl e | Inr r \<Rightarrow> Inr (a ! k # r)))"

abbreviation getitem :: "'a list \<Rightarrow> int list \<Rightarrow> 'a list result" where
  "getitem \<equiv> getitem_axis 0"

text \<open>\<^verbatim>\<open>None[index]\<close> raises TypeError; an optional array is indexed through this.\<close>

definition not_subscriptable :: error where
  "not_subscriptable = TypeError ([CHR 0x27] @ ''NoneType'' @ [CHR 0x27] @ '' object is not subscriptable'')"

section \<open>Cell (stereo/core/cell.py)\<close>

text \<open>
  The coordinate sequence of a shapely geometry (a point, a line or the exterior ring of
  a polygon).
\<close>

datatype geometry = Geometry "(float64 \<times> float64) list"

text \<open>
  \<open>cell_name\<close> is the attribute \<^verbatim>\<open>_cell_name\<close>, \<open>None\<close> or an ndarray of names.
  \<open>cell_point\<close> is the attribute that \<^verbatim>\<open>read_txt\<close> attaches in cell-bin mode; the class
  itself does not declare it and \<^verbatim>\<open>sub_set\<close> does not touch it.
\<close>

record cell =
  cell_name :: "string list option"
  total_counts :: "scalar list option"
  pct_counts_mt :: "scalar list option"
  n_genes_by_counts :: "scalar list option"
  cell_point :: "geometry list option"

definition Cell :: "string list option \<Rightarrow> cell" where
  "Cell name =
     \<lparr>cell_name = name, total_counts = None, pct_counts_mt = None,
      n_genes_by_counts = None, cell_point = None\<rparr>"

definition cell_name_setter :: "cell \<Rightarrow> pyval \<Rightarrow> unit result \<times> cell" where
  "cell_name_setter c name =
     (case name of
        Ndarray a \<Rightarrow> (Inr (), c\<lparr>cell_name := Some a\<rparr>)
      | _ \<Rightarrow> (Inl (TypeError ''cell name must be a np.ndarray object.''), c))"

definition sub_set :: "cell \<Rightarrow> int list \<Rightarrow> unit result \<times> cell" where
  "sub_set c index =
     then_do
       (case cell_name c of
          None \<Rightarrow> (Inr (), c)
        | Some a \<Rightarrow>
            (case getitem a index of
               Inl e \<Rightarrow> (Inl e, c)
             | Inr a' \<Rightarrow> cell_name_setter c (Ndarray a')))
       (\<lambda>c. then_do
          (case total_counts c of
             None \<Rightarrow> (Inr (), c)
           | Some a \<Rightarrow>
               (case getitem a index of
                  Inl e \<Rightarrow> (Inl e, c)
                | Inr a' \<Rightarrow> (Inr (), c\<lparr>total_counts := Some a'\<rparr>)))
          (\<lambda>c. then_do
             (case pct_counts_mt c of
                None \<Rightarrow> (Inr (), c)
              | Some a \<Rightarrow>
                  (case getitem a index of
                     Inl e \<Rightarrow> (Inl e, c)
                   | Inr a' \<Rightarrow> (Inr (), c\<lparr>pct_counts_mt := Some a'\<rparr>)))
             (\<lambda>c. (case n_genes_by_counts c of
                      None \<Rightarrow> (Inr (), c)
                    | Some a \<Rightarrow>
                        (case getitem a index of
                           Inl e \<Rightarrow> (Inl e, c)
                         | Inr a' \<Rightarrow> (Inr (), c\<lparr>n_genes_by_counts := Some a'\<rparr>))))))"


section \<open>Gene\<close>

text \<open>
  Modelled from the spec: the class \<^verbatim>\<open>Gene\<close> of stereo/core/gene.py, which is not among the
  sources.  The spec describes it as the second instance of the metadata table: a name
  sequence, named scalar attribute arrays aligned with it, and \<^verbatim>\<open>sub_set(index)\<close>, which
  slices the names and every populated attribute with the same selection, all of them or
  none.  The sources use its constructor \<^verbatim>\<open>Gene(gene_name=...)\<close>, its property
  \<^verbatim>\<open>gene_name\<close> and \<^verbatim>\<open>sub_set\<close>.
\<close>

record gene =
  gene_name :: "string list option"
  gene_attrs :: "(string \<times> scalar list) list"

definition Gene :: "string list option \<Rightarrow> gene" where
  "Gene name = \<lparr>gene_name = name, gene_attrs = []\<rparr>"

fun getitem_all :: "'a list list \<Rightarrow> int list \<Rightarrow> 'a list list result" where
  "getitem_all [] index = Inr []"
| "getitem_all (a # as) index =
     (case getitem a index of
        Inl e \<Rightarrow> Inl e
      | Inr a' \<Rightarrow> (case getitem_all as index of Inl e \<Rightarrow> Inl e | Inr r \<Rightarrow> Inr (a' # r)))"

definition Gene_sub_set :: "gene \<Rightarrow> int list \<Rightarrow> unit result \<times> gene" where
  "Gene_sub_set g index =
     (case (case gene_name g of
              None \<Rightarrow> Inr None
            | Some a \<Rightarrow> (case getitem a index of Inl e \<Rightarrow> Inl e | Inr a' \<Rightarrow> Inr (Some a'))) of
        Inl e \<Rightarrow> (Inl e, g)
      | Inr names \<Rightarrow>
          (case getitem_all (map snd (gene_attrs g)) index of
             Inl e \<Rightarrow> (Inl e, g)
           | Inr arrs \<Rightarrow>
               (Inr (), g\<lparr>gene_name := names,
                           gene_attrs := zip (map fst (gene_attrs g)) arrs\<rparr>)))"

section \<open>The expression matrix\<close>

text \<open>
  A numpy 2-d array or a scipy sparse matrix, seen through what the code observes of it:
  how it is held in memory, its number of columns, and its rows of counts (the number of
  rows is the length of \<open>vals\<close>).  In a well-formed matrix every row has \<open>n_cols\<close>
  entries.
\<close>

datatype mat_repr = Dense | CSR | CSC

record matrix =
  repr :: mat_repr
  n_cols :: nat
  vals :: "int list list"

definition matrix_wf :: "matrix \<Rightarrow> bool" where
  "matrix_wf m = list_all (\<lambda>row. length row = n_cols m) (vals m)"


text \<open>
  \<^verbatim>\<open>m[index, :]\<close> and \<^verbatim>\<open>m[:, index]\<close> for a list of integers.  The result keeps the
  representation of \<open>m\<close>.  (scipy words the message of its IndexError differently from
  numpy; the model uses numpy's wording for both.)
\<close>

definition matrix_rows :: "matrix \<Rightarrow> int list \<Rightarrow> matrix result" where
  "matrix_rows m index =
     (case getitem_axis 0 (vals m) index of
        Inl e \<Rightarrow> Inl e
      | Inr v \<Rightarrow> Inr (m\<lparr>vals := v\<rparr>))"

definition matrix_cols :: "matrix \<Rightarrow> int list \<Rightarrow> matrix result" where
  "matrix_cols m index =
     (case getitem_axis 1 [0..<n_cols m] index of
        Inl e \<Rightarrow> Inl e
      | Inr js \<Rightarrow> Inr (m\<lparr>n_cols := length js, vals := map (\<lambda>row. map (\<lambda>j. row ! j) js) (vals m)\<rparr>))"

section \<open>The hierarchical container\<close>

text \<open>
  Modelled from the spec: the layout of the persisted container (section 6 of the spec).
  A file is a sequence of named top-level nodes; a node is a plain dataset or a group with
  a kind tag and named member datasets.
\<close>

datatype h5value =
    H5Str string
  | H5Names "string list"
  | H5Array "scalar list"
  | H5Array2 "scalar list list"
  | H5Matrix nat "int list list"

datatype h5node = Dataset h5value | Group string "(string \<times> h5value) list"

type_synonym h5file = "(string \<times> h5node) list"

section \<open>StereoExpData (stereo/core/stereo_exp_data.py)\<close>

text \<open>
  Objects live in a store.  A reference is an index into the list of objects of its class;
  creating an object appends to the list, so a new reference is different from every
  reference that exists.  numpy arrays and matrices are values: the code never updates one
  in place, every indexing expression builds a new array.

  \<open>file_path\<close>, \<open>file_format\<close>, \<open>partitions\<close> and \<open>output_path\<close> are the attributes kept
  by the base class \<^verbatim>\<open>Data\<close> (\<^verbatim>\<open>self.file\<close>, \<^verbatim>\<open>self.file_format\<close>, \<^verbatim>\<open>self.output\<close>);
  \<open>cells_ref\<close> and \<open>genes_ref\<close> are the attributes \<^verbatim>\<open>_cells\<close> and \<^verbatim>\<open>_genes\<close>,
  \<open>bin_size_attr\<close> is the attribute \<^verbatim>\<open>bin_size\<close>.
\<close>

type_synonym ref = nat

record stereo_exp_data =
  file_path :: "string option"
  file_format :: "string option"
  partitions :: int
  output_path :: "string option"
  exp_matrix :: "matrix option"
  genes_ref :: ref
  cells_ref :: ref
  position :: "scalar list list option"
  bin_type :: "string option"
  bin_size_attr :: int

record world =
  data_objs :: "stereo_exp_data list"
  cell_objs :: "cell list"
  gene_objs :: "gene list"
  files :: "(string \<times> h5file) list"
  logs :: "(level \<times> string) list"

definition logger_error :: "string \<Rightarrow> world \<Rightarrow> world" where
  "logger_error msg w = w\<lparr>logs := logs w @ [(ERROR, msg)]\<rparr>"


text \<open>A reference to a dataset is valid when it and the Cell and Gene it holds exist.\<close>

definition valid_data :: "world \<Rightarrow> ref \<Rightarrow> bool" where
  "valid_data w self =
     (self < length (data_objs w)
      \<and> cells_ref (data_objs w ! self) < length (cell_objs w)
      \<and> genes_ref (data_objs w ! self) < length (gene_objs w))"

definition update_data :: "ref \<Rightarrow> (stereo_exp_data \<Rightarrow> stereo_exp_data) \<Rightarrow> world \<Rightarrow> world" where
  "update_data self f w = w\<lparr>data_objs := (data_objs w)[self := f (data_objs w ! self)]\<rparr>"

subsection \<open>check and the bin type\<close>

definition bin_type_check :: "string option \<Rightarrow> world \<Rightarrow> unit result \<times> world" where
  "bin_type_check b w =
     (case b of
        None \<Rightarrow> (Inr (), w)
      | Some v \<Rightarrow>
          if v \<notin> set [''bins'', ''cell_bins'']
          then (Inl PyException,
                logger_error (''the bin type `'' @ v @ ''` is not in the range, please check!'') w)
          else (Inr (), w))"

text \<open>
  \<^verbatim>\<open>check\<close> first runs the check of the base class \<^verbatim>\<open>Data\<close>, which is not among the
  sources: it is the parameter \<open>Data_check\<close>.
\<close>

definition check ::
  "(world \<Rightarrow> ref \<Rightarrow> unit result \<times> world) \<Rightarrow> world \<Rightarrow> ref \<Rightarrow> unit result \<times> world" where
  "check Data_check w self =
     then_do (Data_check w self) (\<lambda>w. bin_type_check (bin_type (data_objs w ! self)) w)"

definition bin_type_setter :: "world \<Rightarrow> ref \<Rightarrow> string option \<Rightarrow> unit result \<times> world" where
  "bin_type_setter w self b_type =
     then_do (bin_type_check b_type w)
       (\<lambda>w. (Inr (), update_data self (\<lambda>d. d\<lparr>bin_type := b_type\<rparr>) w))"


subsection \<open>Reading the text format\<close>













text \<open>pandas' \<^verbatim>\<open>unique\<close>: the distinct values in the order of their first occurrence.\<close>

definition unique :: "'a list \<Rightarrow> 'a list" where
  "unique xs = rev (remdups (rev xs))"





definition new_cell :: "cell \<Rightarrow> world \<Rightarrow> ref \<times> world" where
  "new_cell c w = (length (cell_objs w), w\<lparr>cell_objs := cell_objs w @ [c]\<rparr>)"

definition new_gene :: "gene \<Rightarrow> world \<Rightarrow> ref \<times> world" where
  "new_gene g w = (length (gene_objs w), w\<lparr>gene_objs := gene_objs w @ [g]\<rparr>)"

definition new_data :: "stereo_exp_data \<Rightarrow> world \<Rightarrow> ref \<times> world" where
  "new_data d w = (length (data_objs w), w\<lparr>data_objs := data_objs w @ [d]\<rparr>)"

definition update_cell :: "ref \<Rightarrow> (cell \<Rightarrow> cell) \<Rightarrow> world \<Rightarrow> world" where
  "update_cell c f w = w\<lparr>cell_objs := (cell_objs w)[c := f (cell_objs w ! c)]\<rparr>"

definition update_gene :: "ref \<Rightarrow> (gene \<Rightarrow> gene) \<Rightarrow> world \<Rightarrow> world" where
  "update_gene g f w = w\<lparr>gene_objs := (gene_objs w)[g := f (gene_objs w ! g)]\<rparr>"



subsection \<open>Subsetting\<close>

text \<open>
  The position that an index \<open>i\<close> with \<open>-n \<le> i < n\<close> denotes in a sequence of length
  \<open>n\<close>.
\<close>

definition py_pos :: "nat \<Rightarrow> int \<Rightarrow> nat" where
  "py_pos n i = (if 0 \<le> i then nat i else nat (int n + i))"

text \<open>
  The two blocks of \<^verbatim>\<open>sub_by_index\<close>.  Lines 78 to 80 restrict the matrix, the position
  and the Cell to \<open>cell_index\<close>; \<^verbatim>\<open>sub_set\<close> works on the Cell object itself and returns
  it, so \<^verbatim>\<open>self.cells\<close> receives the reference it already holds.  Lines 82 and 83 do the
  same for the columns and the Gene.  An attribute that is \<^verbatim>\<open>None\<close> cannot be indexed.
\<close>

definition sub_by_cell_index :: "world \<Rightarrow> ref \<Rightarrow> int list \<Rightarrow> unit result \<times> world" where
  "sub_by_cell_index w self cell_index =
     then_do
       (case exp_matrix (data_objs w ! self) of
          None \<Rightarrow> (Inl not_subscriptable, w)
        | Some m \<Rightarrow>
            (case matrix_rows m cell_index of
               Inl e \<Rightarrow> (Inl e, w)
             | Inr m' \<Rightarrow> (Inr (), update_data self (\<lambda>d. d\<lparr>exp_matrix := Some m'\<rparr>) w)))
       (\<lambda>w. then_do
          (case position (data_objs w ! self) of
             None \<Rightarrow> (Inl not_subscriptable, w)
           | Some p \<Rightarrow>
               (case getitem p cell_index of
                  Inl e \<Rightarrow> (Inl e, w)
                | Inr p' \<Rightarrow> (Inr (), update_data self (\<lambda>d. d\<lparr>position := Some p'\<rparr>) w)))
          (\<lambda>w. let c = cells_ref (data_objs w ! self);
                    (r, c') = sub_set (cell_objs w ! c) cell_index
                in then_do (r, update_cell c (\<lambda>_. c') w)
                     (\<lambda>w. (Inr (), update_data self (\<lambda>d. d\<lparr>cells_ref := c\<rparr>) w))))"

definition sub_by_gene_index :: "world \<Rightarrow> ref \<Rightarrow> int list \<Rightarrow> unit result \<times> world" where
  "sub_by_gene_index w self gene_index =
     then_do
       (case exp_matrix (data_objs w ! self) of
          None \<Rightarrow> (Inl not_subscriptable, w)
        | Some m \<Rightarrow>
            (case matrix_cols m gene_index of
               Inl e \<Rightarrow> (Inl e, w)
             | Inr m' \<Rightarrow> (Inr (), update_data self (\<lambda>d. d\<lparr>exp_matrix := Some m'\<rparr>) w)))
       (\<lambda>w. let g = genes_ref (data_objs w ! self);
                 (r, g') = Gene_sub_set (gene_objs w ! g) gene_index
             in then_do (r, update_gene g (\<lambda>_. g') w)
                  (\<lambda>w. (Inr (), update_data self (\<lambda>d. d\<lparr>genes_ref := g\<rparr>) w)))"

definition sub_by_index ::
  "world \<Rightarrow> ref \<Rightarrow> int list option \<Rightarrow> int list option \<Rightarrow> ref result \<times> world" where
  "sub_by_index w self cell_index gene_index =
     then_do
       (case cell_index of
          None \<Rightarrow> (Inr (), w)
        | Some ci \<Rightarrow> sub_by_cell_index w self ci)
       (\<lambda>w. then_do
          (case gene_index of
             None \<Rightarrow> (Inr (), w)
           | Some gi \<Rightarrow> sub_by_gene_index w self gi)
          (\<lambda>w. (Inr self, w)))"

text \<open>
  \<^verbatim>\<open>copy.deepcopy(self)\<close>: a new dataset object with a new Cell and a new Gene that hold
  the same values.
\<close>

definition deepcopy :: "world \<Rightarrow> ref \<Rightarrow> ref \<times> world" where
  "deepcopy w self =
     (let d = data_objs w ! self;
          (c, w) = new_cell (cell_objs w ! cells_ref d) w;
          (g, w) = new_gene (gene_objs w ! genes_ref d) w
      in new_data (d\<lparr>cells_ref := c, genes_ref := g\<rparr>) w)"

text \<open>
  \<^verbatim>\<open>np.argwhere(names == i)[0][0]\<close>: \<^verbatim>\<open>argwhere\<close> lists the positions where the array
  equals \<open>i\<close> (none when the attribute is \<^verbatim>\<open>None\<close>); taking element 0 of an empty result
  raises numpy's IndexError for index 0 on axis 0 of size 0.
\<close>

definition argwhere_eq :: "string list option \<Rightarrow> string \<Rightarrow> nat list" where
  "argwhere_eq names i =
     (case names of None \<Rightarrow> [] | Some a \<Rightarrow> filter (\<lambda>k. a ! k = i) [0..<length a])"

definition first_index :: "string list option \<Rightarrow> string \<Rightarrow> int result" where
  "first_index names i =
     (case argwhere_eq names i of [] \<Rightarrow> Inl (out_of_bounds 0 0 0) | k # _ \<Rightarrow> Inr (int k))"

fun name_indices :: "string list option \<Rightarrow> string list \<Rightarrow> int list result" where
  "name_indices names [] = Inr []"
| "name_indices names (i # rest) =
     (case first_index names i of
        Inl e \<Rightarrow> Inl e
      | Inr k \<Rightarrow> (case name_indices names rest of Inl e \<Rightarrow> Inl e | Inr ks \<Rightarrow> Inr (k # ks)))"

definition sub_by_name ::
  "world \<Rightarrow> ref \<Rightarrow> string list option \<Rightarrow> string list option \<Rightarrow> ref result \<times> world" where
  "sub_by_name w self cell_names gene_names =
     (let (data, w) = deepcopy w self in
      case (case cell_names of
              None \<Rightarrow> Inr None
            | Some names \<Rightarrow>
                (case name_indices (cell_name (cell_objs w ! cells_ref (data_objs w ! data))) names of
                   Inl e \<Rightarrow> Inl e
                 | Inr ks \<Rightarrow> Inr (Some ks))) of
        Inl e \<Rightarrow> (Inl e, w)
      | Inr cell_index \<Rightarrow>
          (case (case gene_names of
                   None \<Rightarrow> Inr None
                 | Some names \<Rightarrow>
                     (case name_indices
                             (gene_name (gene_objs w ! genes_ref (data_objs w ! data))) names of
                        Inl e \<Rightarrow> Inl e
                      | Inr ks \<Rightarrow> Inr (Some ks))) of
             Inl e \<Rightarrow> (Inl e, w)
           | Inr gene_index \<Rightarrow> sub_by_index w data cell_index gene_index))"

text \<open>The names that a name attribute holds (none when it is \<^verbatim>\<open>None\<close>).\<close>

definition names_of :: "string list option \<Rightarrow> string set" where
  "names_of a = (case a of None \<Rightarrow> {} | Some xs \<Rightarrow> set xs)"

text \<open>
  The invariant of a dataset (section 3 of the spec): the matrix, the position and the
  names are present, the matrix has one row and the position one row per cell name, the
  matrix has one column per gene name, and every populated attribute array is as long as
  the names.
\<close>

definition cell_wf :: "cell \<Rightarrow> nat \<Rightarrow> bool" where
  "cell_wf c n =
     ((case cell_name c of None \<Rightarrow> False | Some a \<Rightarrow> length a = n)
      \<and> (case total_counts c of None \<Rightarrow> True | Some a \<Rightarrow> length a = n)
      \<and> (case pct_counts_mt c of None \<Rightarrow> True | Some a \<Rightarrow> length a = n)
      \<and> (case n_genes_by_counts c of None \<Rightarrow> True | Some a \<Rightarrow> length a = n))"

definition gene_wf :: "gene \<Rightarrow> nat \<Rightarrow> bool" where
  "gene_wf g n =
     ((case gene_name g of None \<Rightarrow> False | Some a \<Rightarrow> length a = n)
      \<and> list_all (\<lambda>(k, a). length a = n) (gene_attrs g))"

definition data_wf :: "world \<Rightarrow> ref \<Rightarrow> bool" where
  "data_wf w self =
     (valid_data w self
      \<and> (case exp_matrix (data_objs w ! self) of
            None \<Rightarrow> False
          | Some m \<Rightarrow>
              matrix_wf m
              \<and> (case position (data_objs w ! self) of
                    None \<Rightarrow> False
                  | Some p \<Rightarrow> length p = length (vals m))
              \<and> cell_wf (cell_objs w ! cells_ref (data_objs w ! self)) (length (vals m))
              \<and> gene_wf (gene_objs w ! genes_ref (data_objs w ! self)) (n_cols m)))"

subsection \<open>The h5ad format\<close>

text \<open>The objects that \<^verbatim>\<open>h5ad.write\<close> receives and the readers return.\<close>

datatype pyobj =
    NoneObj
  | StrObj string
  | NamesObj "string list"
  | Array1Obj "scalar list"
  | Array2Obj "scalar list list"
  | MatrixObj matrix
  | CellObj cell
  | GeneObj gene

text \<open>
  Modelled from the spec: the functions \<^verbatim>\<open>write\<close>, \<^verbatim>\<open>read_group\<close> and
  \<^verbatim>\<open>read_dataset\<close> of stereo/core/h5ad.py, which is not among the sources.  Section 4.4
  of the spec: a metadata table is a group that holds the name sequence and every populated
  attribute array as a dataset under the name of the attribute; a sparse matrix is a group
  with its sparse-format tag, a dense matrix a plain dataset; the position and the bin type
  are plain datasets.  The layout has no encoding for a value that is unset: nothing is
  stored for it.  The index and data arrays of a sparse matrix are kept at the level of the
  matrix model, as its rows of values.  The kind of a group (\<^verbatim>\<open>cell\<close>, \<^verbatim>\<open>gene\<close>, or the
  sparse format) is its tag, which \<^verbatim>\<open>read_group\<close> inspects.
\<close>

definition cell_members :: "cell \<Rightarrow> (string \<times> h5value) list" where
  "cell_members c =
     (case cell_name c of None \<Rightarrow> [] | Some a \<Rightarrow> [(''cell_name'', H5Names a)])
     @ (case total_counts c of None \<Rightarrow> [] | Some a \<Rightarrow> [(''total_counts'', H5Array a)])
     @ (case pct_counts_mt c of None \<Rightarrow> [] | Some a \<Rightarrow> [(''pct_counts_mt'', H5Array a)])
     @ (case n_genes_by_counts c of None \<Rightarrow> [] | Some a \<Rightarrow> [(''n_genes_by_counts'', H5Array a)])"

definition gene_members :: "gene \<Rightarrow> (string \<times> h5value) list" where
  "gene_members g =
     (case gene_name g of None \<Rightarrow> [] | Some a \<Rightarrow> [(''gene_name'', H5Names a)])
     @ map (\<lambda>(k, a). (k, H5Array a)) (gene_attrs g)"

fun h5ad_write :: "pyobj \<Rightarrow> h5file \<Rightarrow> string \<Rightarrow> string option \<Rightarrow> h5file" where
  "h5ad_write NoneObj f key sp_format = f"
| "h5ad_write (StrObj v) f key sp_format = f @ [(key, Dataset (H5Str v))]"
| "h5ad_write (NamesObj a) f key sp_format = f @ [(key, Dataset (H5Names a))]"
| "h5ad_write (Array1Obj a) f key sp_format = f @ [(key, Dataset (H5Array a))]"
| "h5ad_write (Array2Obj a) f key sp_format = f @ [(key, Dataset (H5Array2 a))]"
| "h5ad_write (MatrixObj m) f key sp_format =
     (if repr m = Dense then f @ [(key, Dataset (H5Matrix (n_cols m) (vals m)))]
      else f @ [(key, Group (case sp_format of
                               Some t \<Rightarrow> t
                             | None \<Rightarrow> (if repr m = CSR then ''csr'' else ''csc''))
                        [(''data'', H5Matrix (n_cols m) (vals m))])])"
| "h5ad_write (CellObj c) f key sp_format = f @ [(key, Group ''cell'' (cell_members c))]"
| "h5ad_write (GeneObj g) f key sp_format = f @ [(key, Group ''gene'' (gene_members g))]"

definition names_member :: "(string \<times> h5value) list \<Rightarrow> string \<Rightarrow> string list option" where
  "names_member members key =
     (case map_of members key of Some (H5Names a) \<Rightarrow> Some a | _ \<Rightarrow> None)"

definition array_member :: "(string \<times> h5value) list \<Rightarrow> string \<Rightarrow> scalar list option" where
  "array_member members key =
     (case map_of members key of Some (H5Array a) \<Rightarrow> Some a | _ \<Rightarrow> None)"

definition read_group :: "string \<Rightarrow> (string \<times> h5value) list \<Rightarrow> pyobj" where
  "read_group tag members =
     (if tag = ''cell'' then
        CellObj \<lparr>cell_name = names_member members ''cell_name'',
                 total_counts = array_member members ''total_counts'',
                 pct_counts_mt = array_member members ''pct_counts_mt'',
                 n_genes_by_counts = array_member members ''n_genes_by_counts'',
                 cell_point = None\<rparr>
      else if tag = ''gene'' then
        GeneObj \<lparr>gene_name = names_member members ''gene_name'',
                 gene_attrs = List.map_filter
                   (\<lambda>(k, v). case v of H5Array a \<Rightarrow> Some (k, a) | _ \<Rightarrow> None) members\<rparr>
      else if tag = ''csr'' \<or> tag = ''csc'' then
        (case map_of members ''data'' of
           Some (H5Matrix n v) \<Rightarrow>
             MatrixObj \<lparr>repr = (if tag = ''csr'' then CSR else CSC), n_cols = n, vals = v\<rparr>
         | _ \<Rightarrow> NoneObj)
      else NoneObj)"

fun read_dataset :: "h5value \<Rightarrow> pyobj" where
  "read_dataset (H5Str v) = StrObj v"
| "read_dataset (H5Names a) = NamesObj a"
| "read_dataset (H5Array a) = Array1Obj a"
| "read_dataset (H5Array2 a) = Array2Obj a"
| "read_dataset (H5Matrix n v) = MatrixObj \<lparr>repr = Dense, n_cols = n, vals = v\<rparr>"

text \<open>
  The files of the file system that are containers, by path.  \<^verbatim>\<open>h5py.File(path, 'w')\<close>
  creates the file or replaces the one that is there; with \<^verbatim>\<open>None\<close> for the path it
  raises TypeError before anything is created.  \<^verbatim>\<open>f.keys()\<close> yields the names of the
  top-level nodes in alphabetical order.
\<close>

definition h5_keys :: "h5file \<Rightarrow> string list" where
  "h5_keys f = sort (map fst f)"

definition store_file :: "string \<Rightarrow> h5file \<Rightarrow> world \<Rightarrow> world" where
  "store_file path f w = w\<lparr>files := (path, f) # filter (\<lambda>(q, _). q \<noteq> path) (files w)\<rparr>"

text \<open>
  \<^verbatim>\<open>write_h5ad\<close>.  With no output path the method logs an error and goes on to open the
  file, which is where it fails.
\<close>

definition write_h5ad :: "world \<Rightarrow> ref \<Rightarrow> unit result \<times> world" where
  "write_h5ad w self =
     (let d = data_objs w ! self;
          w = (if output_path d = None
               then logger_error ''the output path must be set before writting.'' w else w)
      in case output_path d of
           None \<Rightarrow>
             (Inl (TypeError ''expected str, bytes or os.PathLike object, not NoneType''), w)
         | Some path \<Rightarrow>
             let f = [];
                 f = h5ad_write (GeneObj (gene_objs w ! genes_ref d)) f ''genes'' None;
                 f = h5ad_write (CellObj (cell_objs w ! cells_ref d)) f ''cells'' None;
                 f = h5ad_write (case position d of None \<Rightarrow> NoneObj | Some a \<Rightarrow> Array2Obj a)
                       f ''position'' None;
                 sp_format = (if (case exp_matrix d of None \<Rightarrow> False | Some m \<Rightarrow> repr m = CSR)
                              then ''csr'' else ''csc'');
                 f = h5ad_write (case exp_matrix d of None \<Rightarrow> NoneObj | Some m \<Rightarrow> MatrixObj m)
                       f ''exp_matrix'' (Some sp_format);
                 f = h5ad_write (case bin_type d of None \<Rightarrow> NoneObj | Some b \<Rightarrow> StrObj b)
                       f ''bin_type'' None
             in (Inr (), store_file path f w))"

text \<open>The method \<^verbatim>\<open>write\<close>.\<close>

definition write_data :: "world \<Rightarrow> ref \<Rightarrow> unit result \<times> world" where
  "write_data w self = write_h5ad w self"

text \<open>
  One round of the loop of \<^verbatim>\<open>read_h5ad\<close>.  The store is typed: where the reader returns
  an object of another class than the attribute holds (Python would assign it as it is),
  the model stops with a TypeError.
\<close>

definition wrong_kind :: error where
  "wrong_kind = TypeError ''the node holds an object of another kind''"

definition read_key :: "h5file \<Rightarrow> string \<Rightarrow> world \<Rightarrow> ref \<Rightarrow> unit result \<times> world" where
  "read_key f k w self =
     (case map_of f k of
        None \<Rightarrow> (Inl (KeyError k), w)
      | Some node \<Rightarrow>
          if k = ''cells'' then
            (case node of
               Group tag members \<Rightarrow>
                 (case read_group tag members of
                    CellObj c \<Rightarrow>
                      (let (r, w) = new_cell c w
                       in (Inr (), update_data self (\<lambda>d. d\<lparr>cells_ref := r\<rparr>) w))
                  | _ \<Rightarrow> (Inl wrong_kind, w))
             | Dataset v \<Rightarrow> (Inl wrong_kind, w))
          else if k = ''genes'' then
            (case node of
               Group tag members \<Rightarrow>
                 (case read_group tag members of
                    GeneObj g \<Rightarrow>
                      (let (r, w) = new_gene g w
                       in (Inr (), update_data self (\<lambda>d. d\<lparr>genes_ref := r\<rparr>) w))
                  | _ \<Rightarrow> (Inl wrong_kind, w))
             | Dataset v \<Rightarrow> (Inl wrong_kind, w))
          else if k = ''position'' then
            (case node of
               Dataset v \<Rightarrow>
                 (case read_dataset v of
                    Array2Obj a \<Rightarrow> (Inr (), update_data self (\<lambda>d. d\<lparr>position := Some a\<rparr>) w)
                  | _ \<Rightarrow> (Inl wrong_kind, w))
             | Group tag members \<Rightarrow> (Inl wrong_kind, w))
          else if k = ''bin_type'' then
            (case node of
               Dataset v \<Rightarrow>
                 (case read_dataset v of
                    StrObj b \<Rightarrow> bin_type_setter w self (Some b)
                  | _ \<Rightarrow> (Inl wrong_kind, w))
             | Group tag members \<Rightarrow> (Inl wrong_kind, w))
          else if k = ''exp_matrix'' then
            (case (case node of
                     Group tag members \<Rightarrow> read_group tag members
                   | Dataset v \<Rightarrow> read_dataset v) of
               MatrixObj m \<Rightarrow> (Inr (), update_data self (\<lambda>d. d\<lparr>exp_matrix := Some m\<rparr>) w)
             | _ \<Rightarrow> (Inl wrong_kind, w))
          else (Inr (), w))"

fun read_keys :: "h5file \<Rightarrow> string list \<Rightarrow> world \<Rightarrow> ref \<Rightarrow> unit result \<times> world" where
  "read_keys f [] w self = (Inr (), w)"
| "read_keys f (k # ks) w self = then_do (read_key f k w self) (\<lambda>w. read_keys f ks w self)"

definition read_h5ad :: "world \<Rightarrow> ref \<Rightarrow> ref result \<times> world" where
  "read_h5ad w self =
     (case file_path (data_objs w ! self) of
        None \<Rightarrow>
          (Inl (AttributeError ([CHR 0x27] @ ''NoneType'' @ [CHR 0x27]
                  @ '' object has no attribute '' @ [CHR 0x27] @ ''exists'' @ [CHR 0x27])), w)
      | Some path \<Rightarrow>
          (case map_of (files w) path of
             None \<Rightarrow>
               (Inl (FileExistsError ''the input file is not exists, please check!''),
                logger_error ''the input file is not exists, please check!'' w)
           | Some f \<Rightarrow>
               then_do (read_keys f (h5_keys f) w self) (\<lambda>w. (Inr self, w))))"

text \<open>
  The constructor.  \<open>genes_arg\<close> and \<open>cells_arg\<close> are either an existing Gene or Cell
  (\<open>Inl\<close>) or the names for a new one (\<open>Inr\<close>); the bin type is stored without a check.
\<close>

definition StereoExpData ::
  "world \<Rightarrow> string option \<Rightarrow> string option \<Rightarrow> string option \<Rightarrow> int \<Rightarrow> matrix option
     \<Rightarrow> ref + string list option \<Rightarrow> ref + string list option \<Rightarrow> scalar list list option
     \<Rightarrow> string option \<Rightarrow> int \<Rightarrow> ref \<times> world" where
  "StereoExpData w file_path_arg file_format_arg bin_type_arg bin_size_arg exp_matrix_arg
       genes_arg cells_arg position_arg output_arg partitions_arg =
     (let (g, w) = (case genes_arg of Inl r \<Rightarrow> (r, w) | Inr names \<Rightarrow> new_gene (Gene names) w);
          (c, w) = (case cells_arg of Inl r \<Rightarrow> (r, w) | Inr names \<Rightarrow> new_cell (Cell names) w)
      in new_data
           \<lparr>file_path = file_path_arg, file_format = file_format_arg,
            partitions = partitions_arg, output_path = output_arg,
            exp_matrix = exp_matrix_arg, genes_ref = g, cells_ref = c,
            position = position_arg, bin_type = bin_type_arg, bin_size_attr = bin_size_arg\<rparr> w)"

section \<open>Example inputs\<close>

definition ex_data :: stereo_exp_data where
  "ex_data =
     \<lparr>file_path = Some ''in.gem'', file_format = Some ''txt'', partitions = 1,
      output_path = Some ''out.h5ad'',
      exp_matrix = Some \<lparr>repr = CSR, n_cols = 2, vals = [[1, 0], [0, 2], [3, 4]]\<rparr>,
      genes_ref = 0, cells_ref = 0,
      position = Some [[IntV 50, IntV 50], [IntV 150, IntV 50], [IntV 50, IntV 150]],
      bin_type = Some ''bins'', bin_size_attr = 100\<rparr>"

definition ex_world :: world where
  "ex_world =
     \<lparr>data_objs = [ex_data], cell_objs = [Cell (Some [''0_0'', ''1_0'', ''0_1''])],
      gene_objs = [Gene (Some [''G1'', ''G2''])], files = [], logs = []\<rparr>"



definition ex_world_unset :: world where
  "ex_world_unset = ex_world\<lparr>data_objs := [ex_data\<lparr>output_path := None\<rparr>]\<rparr>"

section \<open>Theorems\<close>

text \<open>
  C10.  Assigning to the \<^verbatim>\<open>cell_name\<close> property: a value that is not a numpy ndarray raises
  TypeError and leaves the Cell as it was; an ndarray is accepted and replaces the stored
  name (the other attributes are kept).
\<close>

theorem cell_name_setter_type_guard:
  "((\<forall>a. v \<noteq> Ndarray a) \<longrightarrow>
      cell_name_setter c v = (Inl (TypeError ''cell name must be a np.ndarray object.''), c))
   \<and> cell_name_setter c (Ndarray a) = (Inr (), c\<lparr>cell_name := Some a\<rparr>)
   \<and> cell_name (snd (cell_name_setter c (Ndarray a))) = Some a"
  by (cases v) (simp_all add: cell_name_setter_def)

theorem cell_name_setter_type_guard_witness:
  "cell_name_setter (Cell (Some [''c1''])) (PyList [PyStr ''c9''])
     = (Inl (TypeError ''cell name must be a np.ndarray object.''), Cell (Some [''c1'']))
   \<and> cell_name (snd (cell_name_setter (Cell (Some [''c1''])) (Ndarray [''c9'']))) = Some [''c9'']"
  using cell_name_setter_type_guard [of "PyList [PyStr ''c9'']" "Cell (Some [''c1''])" "[''c9'']"]
  by simp

text \<open>
  C5, as the code has it.  A bin type of \<^verbatim>\<open>'bins'\<close>, \<^verbatim>\<open>'cell_bins'\<close> or \<^verbatim>\<open>None\<close> passes
  \<^verbatim>\<open>bin_type_check\<close>, so \<^verbatim>\<open>check\<close> succeeds once the check of the base class has passed,
  and the setter of \<^verbatim>\<open>bin_type\<close> stores the value.  For any other value \<^verbatim>\<open>bin_type_check\<close>,
  \<^verbatim>\<open>check\<close> and the setter fail with the bare \<^verbatim>\<open>Exception\<close>, which is the same for every
  offending value; the value is cited only by the error record that is logged before the
  exception is raised, and the setter then stores nothing.
\<close>

theorem bin_type_check_range:
  "(b \<in> {None, Some ''bins'', Some ''cell_bins''} \<longrightarrow>
      bin_type_check b w = (Inr (), w)
      \<and> bin_type_setter w self b = (Inr (), update_data self (\<lambda>d. d\<lparr>bin_type := b\<rparr>) w)
      \<and> (Data_check w0 self = (Inr (), w) \<and> bin_type (data_objs w ! self) = b \<longrightarrow>
           check Data_check w0 self = (Inr (), w)))
   \<and> (b \<notin> {None, Some ''bins'', Some ''cell_bins''} \<longrightarrow>
      (\<exists>v msg. b = Some v \<and> sublist v msg
         \<and> bin_type_check b w = (Inl PyException, w\<lparr>logs := logs w @ [(ERROR, msg)]\<rparr>)
         \<and> bin_type_setter w self b = (Inl PyException, w\<lparr>logs := logs w @ [(ERROR, msg)]\<rparr>)
         \<and> (Data_check w0 self = (Inr (), w) \<and> bin_type (data_objs w ! self) = b \<longrightarrow>
              check Data_check w0 self
                = (Inl PyException, w\<lparr>logs := logs w @ [(ERROR, msg)]\<rparr>))))"
proof (intro conjI impI)
  assume ok: "b \<in> {None, Some ''bins'', Some ''cell_bins''}"
  then show c: "bin_type_check b w = (Inr (), w)"
    by (auto simp: bin_type_check_def)
  show "bin_type_setter w self b = (Inr (), update_data self (\<lambda>d. d\<lparr>bin_type := b\<rparr>) w)"
    by (simp add: bin_type_setter_def then_do_def c)
  assume "Data_check w0 self = (Inr (), w) \<and> bin_type (data_objs w ! self) = b"
  then show "check Data_check w0 self = (Inr (), w)"
    by (simp add: check_def then_do_def c)
next
  assume bad: "b \<notin> {None, Some ''bins'', Some ''cell_bins''}"
  then obtain v where v: "b = Some v" "v \<noteq> ''bins''" "v \<noteq> ''cell_bins''"
    by (cases b) auto
  define msg where "msg = ''the bin type `'' @ v @ ''` is not in the range, please check!''"
  have cite: "sublist v msg"
    unfolding msg_def by (rule sublist_appendI)
  have c: "bin_type_check b w = (Inl PyException, w\<lparr>logs := logs w @ [(ERROR, msg)]\<rparr>)"
    using v by (simp add: bin_type_check_def logger_error_def msg_def)
  have s: "bin_type_setter w self b = (Inl PyException, w\<lparr>logs := logs w @ [(ERROR, msg)]\<rparr>)"
    by (simp add: bin_type_setter_def then_do_def c)
  have k: "Data_check w0 self = (Inr (), w) \<and> bin_type (data_objs w ! self) = b \<longrightarrow>
      check Data_check w0 self = (Inl PyException, w\<lparr>logs := logs w @ [(ERROR, msg)]\<rparr>)"
    by (auto simp: check_def then_do_def c)
  show "\<exists>v msg. b = Some v \<and> sublist v msg
         \<and> bin_type_check b w = (Inl PyException, w\<lparr>logs := logs w @ [(ERROR, msg)]\<rparr>)
         \<and> bin_type_setter w self b = (Inl PyException, w\<lparr>logs := logs w @ [(ERROR, msg)]\<rparr>)
         \<and> (Data_check w0 self = (Inr (), w) \<and> bin_type (data_objs w ! self) = b \<longrightarrow>
              check Data_check w0 self
                = (Inl PyException, w\<lparr>logs := logs w @ [(ERROR, msg)]\<rparr>))"
    using v(1) cite c s k by blast
qed

theorem bin_type_check_range_witness:
  "Some ''bins'' \<in> {None, Some ''bins'', Some ''cell_bins''}
   \<and> bin_type_check (Some ''bins'') ex_world = (Inr (), ex_world)
   \<and> check (\<lambda>w self. (Inr (), w)) ex_world 0 = (Inr (), ex_world)
   \<and> Some ''bin'' \<notin> {None, Some ''bins'', Some ''cell_bins''}
   \<and> fst (bin_type_check (Some ''bin'') ex_world) = Inl PyException
   \<and> logs (snd (bin_type_check (Some ''bin'') ex_world))
       = [(ERROR, ''the bin type `bin` is not in the range, please check!'')]
   \<and> fst (bin_type_setter ex_world 0 (Some ''bin'')) = Inl PyException
   \<and> data_objs (snd (bin_type_setter ex_world 0 (Some ''bin''))) = data_objs ex_world"
proof -
  have ok: "Some ''bins'' \<in> {None, Some ''bins'', Some ''cell_bins''}"
    by simp
  have bad: "Some ''bin'' \<notin> {None, Some ''bins'', Some ''cell_bins''}"
    by simp
  have base: "(\<lambda>w self. (Inr (), w)) ex_world 0 = (Inr (), ex_world)
      \<and> bin_type (data_objs ex_world ! 0) = Some ''bins''"
    by (simp add: ex_world_def ex_data_def)
  from bin_type_check_range [of "Some ''bins''" ex_world 0 "\<lambda>w self. (Inr (), w)" ex_world]
    ok base
  have 1: "bin_type_check (Some ''bins'') ex_world = (Inr (), ex_world)
      \<and> check (\<lambda>w self. (Inr (), w)) ex_world 0 = (Inr (), ex_world)"
    by blast
  from bin_type_check_range [of "Some ''bin''" ex_world 0 "\<lambda>w self. (Inr (), w)" ex_world] bad
  obtain msg where
    "bin_type_check (Some ''bin'') ex_world
       = (Inl PyException, ex_world\<lparr>logs := logs ex_world @ [(ERROR, msg)]\<rparr>)"
    "bin_type_setter ex_world 0 (Some ''bin'')
       = (Inl PyException, ex_world\<lparr>logs := logs ex_world @ [(ERROR, msg)]\<rparr>)"
    by blast
  then have 2: "fst (bin_type_check (Some ''bin'') ex_world) = Inl PyException
      \<and> fst (bin_type_setter ex_world 0 (Some ''bin'')) = Inl PyException
      \<and> data_objs (snd (bin_type_setter ex_world 0 (Some ''bin''))) = data_objs ex_world"
    by simp
  have 3: "logs (snd (bin_type_check (Some ''bin'') ex_world))
       = [(ERROR, ''the bin type `bin` is not in the range, please check!'')]"
    by (simp add: bin_type_check_def logger_error_def ex_world_def)
  from ok bad 1 2 3 show ?thesis by blast
qed

text \<open>
  The claim C5 as the spec states it fails: the exception raised for the bin type \<^verbatim>\<open>'bin'\<close>
  has no arguments, so nothing in it cites the offending value, and the exception raised for
  \<^verbatim>\<open>'foo'\<close> is the same one.
\<close>

theorem bin_type_error_omits_value:
  "fst (bin_type_check (Some ''bin'') ex_world) = Inl PyException
   \<and> fst (bin_type_setter ex_world 0 (Some ''bin'')) = Inl PyException
   \<and> exception_args PyException = []
   \<and> \<not> list_ex (sublist ''bin'') (exception_args PyException)
   \<and> fst (bin_type_check (Some ''foo'') ex_world) = fst (bin_type_check (Some ''bin'') ex_world)
   \<and> fst (bin_type_setter ex_world 0 (Some ''foo''))
       = fst (bin_type_setter ex_world 0 (Some ''bin''))"
  by (simp add: bin_type_check_def bin_type_setter_def then_do_def)

subsection \<open>Grid bins\<close>






subsection \<open>The matrix of counts\<close>

lemma set_unique [simp]: "set (unique xs) = set xs"
  by (simp add: unique_def)

lemma distinct_unique [simp]: "distinct (unique xs)"
  by (simp add: unique_def)



















subsection \<open>Subsetting by index\<close>

lemma py_index_pos:
  assumes "- int n \<le> i" and "i < int n"
  shows "py_index n i = Some (py_pos n i)" and "py_pos n i < n"
  using assms by (auto simp: py_index_def py_pos_def)

lemma getitem_axis_ok:
  assumes "\<forall>i \<in> set ix. - int (length a) \<le> i \<and> i < int (length a)"
  shows "getitem_axis ax a ix = Inr (map (\<lambda>i. a ! py_pos (length a) i) ix)"
  using assms by (induction ix) (simp_all add: py_index_pos)

lemma getitem_all_ok:
  assumes "\<forall>a \<in> set as. length a = n" and "\<forall>i \<in> set ix. - int n \<le> i \<and> i < int n"
  shows "getitem_all as ix = Inr (map (\<lambda>a. map (\<lambda>i. a ! py_pos n i) ix) as)"
  using assms by (induction as) (simp_all add: getitem_axis_ok)

lemma matrix_rows_ok:
  assumes "\<forall>i \<in> set ix. - int (length (vals m)) \<le> i \<and> i < int (length (vals m))"
  shows "matrix_rows m ix = Inr (m\<lparr>vals := map (\<lambda>i. vals m ! py_pos (length (vals m)) i) ix\<rparr>)"
  using assms by (simp add: matrix_rows_def getitem_axis_ok)

lemma matrix_cols_ok:
  assumes "\<forall>j \<in> set jx. - int (n_cols m) \<le> j \<and> j < int (n_cols m)"
  shows "matrix_cols m jx
     = Inr (m\<lparr>n_cols := length jx,
              vals := map (\<lambda>row. map (\<lambda>j. row ! py_pos (n_cols m) j) jx) (vals m)\<rparr>)"
proof -
  have "getitem_axis 1 [0..<n_cols m] jx = Inr (map (\<lambda>j. [0..<n_cols m] ! py_pos (n_cols m) j) jx)"
    using assms getitem_axis_ok [of jx "[0..<n_cols m]" 1] by simp
  moreover have "map (\<lambda>j. [0..<n_cols m] ! py_pos (n_cols m) j) jx = map (py_pos (n_cols m)) jx"
    using assms by (simp add: py_index_pos(2))
  ultimately show ?thesis
    by (simp add: matrix_cols_def comp_def)
qed

lemma sub_set_ok:
  assumes "cell_wf c n" and "\<forall>i \<in> set ix. - int n \<le> i \<and> i < int n"
  shows "sub_set c ix =
     (Inr (), c\<lparr>cell_name := map_option (\<lambda>a. map (\<lambda>i. a ! py_pos n i) ix) (cell_name c),
               total_counts := map_option (\<lambda>a. map (\<lambda>i. a ! py_pos n i) ix) (total_counts c),
               pct_counts_mt := map_option (\<lambda>a. map (\<lambda>i. a ! py_pos n i) ix) (pct_counts_mt c),
               n_genes_by_counts :=
                 map_option (\<lambda>a. map (\<lambda>i. a ! py_pos n i) ix) (n_genes_by_counts c)\<rparr>)"
  using assms
  by (auto simp: sub_set_def then_do_def cell_wf_def cell_name_setter_def getitem_axis_ok
      split: option.splits)

lemma Gene_sub_set_ok:
  assumes "gene_wf g n" and "\<forall>i \<in> set ix. - int n \<le> i \<and> i < int n"
  shows "Gene_sub_set g ix =
     (Inr (), g\<lparr>gene_name := map_option (\<lambda>a. map (\<lambda>i. a ! py_pos n i) ix) (gene_name g),
               gene_attrs := map (\<lambda>(k, a). (k, map (\<lambda>i. a ! py_pos n i) ix)) (gene_attrs g)\<rparr>)"
proof -
  have a: "\<forall>a \<in> set (map snd (gene_attrs g)). length a = n"
    using assms(1) by (auto simp: gene_wf_def list_all_iff)
  have z: "zip (map fst xs) (map (f \<circ> snd) xs) = map (\<lambda>(k, a). (k, f a)) xs"
    for f :: "scalar list \<Rightarrow> scalar list" and xs :: "(string \<times> scalar list) list"
    by (induction xs) auto
  show ?thesis
    using assms
    by (auto simp: Gene_sub_set_def gene_wf_def getitem_axis_ok getitem_all_ok [OF a assms(2)] z
        split: option.splits)
qed


lemma sub_by_cell_index_ok:
  assumes "self < length (data_objs w)"
    and "c = cells_ref (data_objs w ! self)" and "c < length (cell_objs w)"
    and "exp_matrix (data_objs w ! self) = Some m" and "position (data_objs w ! self) = Some p"
    and "length (vals m) = n" and "length p = n" and "cell_wf (cell_objs w ! c) n"
    and "\<forall>i \<in> set ix. - int n \<le> i \<and> i < int n"
  shows "sub_by_cell_index w self ix =
    (Inr (),
     w\<lparr>data_objs := (data_objs w)
          [self := (data_objs w ! self)
             \<lparr>exp_matrix := Some (m\<lparr>vals := map (\<lambda>i. vals m ! py_pos n i) ix\<rparr>),
              position := Some (map (\<lambda>i. p ! py_pos n i) ix)\<rparr>],
       cell_objs := (cell_objs w)
          [c := (cell_objs w ! c)
             \<lparr>cell_name := map_option (\<lambda>a. map (\<lambda>i. a ! py_pos n i) ix) (cell_name (cell_objs w ! c)),
              total_counts :=
                map_option (\<lambda>a. map (\<lambda>i. a ! py_pos n i) ix) (total_counts (cell_objs w ! c)),
              pct_counts_mt :=
                map_option (\<lambda>a. map (\<lambda>i. a ! py_pos n i) ix) (pct_counts_mt (cell_objs w ! c)),
              n_genes_by_counts :=
                map_option (\<lambda>a. map (\<lambda>i. a ! py_pos n i) ix)
                  (n_genes_by_counts (cell_objs w ! c))\<rparr>]\<rparr>)"
proof -
  have r: "matrix_rows m ix = Inr (m\<lparr>vals := map (\<lambda>i. vals m ! py_pos n i) ix\<rparr>)"
    using matrix_rows_ok [of ix m] assms(6,9) by simp
  have g: "getitem p ix = Inr (map (\<lambda>i. p ! py_pos n i) ix)"
    using getitem_axis_ok [of ix p 0] assms(7,9) by simp
  show ?thesis
    using assms(1,3) sub_set_ok [OF assms(8,9)] unfolding assms(2)
    by (simp add: sub_by_cell_index_def then_do_def assms(4,5) r g
        update_data_def update_cell_def Let_def)
qed

lemma sub_by_gene_index_ok:
  assumes "self < length (data_objs w)"
    and "g = genes_ref (data_objs w ! self)" and "g < length (gene_objs w)"
    and "exp_matrix (data_objs w ! self) = Some m"
    and "n_cols m = n" and "gene_wf (gene_objs w ! g) n"
    and "\<forall>j \<in> set jx. - int n \<le> j \<and> j < int n"
  shows "sub_by_gene_index w self jx =
    (Inr (),
     w\<lparr>data_objs := (data_objs w)
          [self := (data_objs w ! self)
             \<lparr>exp_matrix := Some (m\<lparr>n_cols := length jx,
                  vals := map (\<lambda>row. map (\<lambda>j. row ! py_pos n j) jx) (vals m)\<rparr>)\<rparr>],
       gene_objs := (gene_objs w)
          [g := (gene_objs w ! g)
             \<lparr>gene_name := map_option (\<lambda>a. map (\<lambda>i. a ! py_pos n i) jx) (gene_name (gene_objs w ! g)),
              gene_attrs := map (\<lambda>(k, a). (k, map (\<lambda>i. a ! py_pos n i) jx))
                              (gene_attrs (gene_objs w ! g))\<rparr>]\<rparr>)"
proof -
  have r: "matrix_cols m jx = Inr (m\<lparr>n_cols := length jx,
              vals := map (\<lambda>row. map (\<lambda>j. row ! py_pos n j) jx) (vals m)\<rparr>)"
    using matrix_cols_ok [of jx m] assms(5,7) by simp
  show ?thesis
    using assms(1,3) Gene_sub_set_ok [OF assms(6,7)] unfolding assms(2)
    by (simp add: sub_by_gene_index_def then_do_def assms(4) r
        update_data_def update_gene_def Let_def)
qed


lemma sub_by_index_result:
  assumes "data_wf w self"
    and "exp_matrix (data_objs w ! self) = Some m"
    and "position (data_objs w ! self) = Some p"
    and "cell_name (cell_objs w ! cells_ref (data_objs w ! self)) = Some names"
    and "gene_name (gene_objs w ! genes_ref (data_objs w ! self)) = Some gnames"
    and "\<forall>i \<in> set I. - int (length names) \<le> i \<and> i < int (length names)"
    and "\<forall>J. gene_index = Some J \<longrightarrow>
           (\<forall>j \<in> set J. - int (length gnames) \<le> j \<and> j < int (length gnames))"
  shows "\<exists>w' m' p' names'.
      sub_by_index w self (Some I) gene_index = (Inr self, w')
    \<and> length (data_objs w') = length (data_objs w)
    \<and> (\<forall>r. r \<noteq> self \<longrightarrow> data_objs w' ! r = data_objs w ! r)
    \<and> cells_ref (data_objs w' ! self) = cells_ref (data_objs w ! self)
    \<and> genes_ref (data_objs w' ! self) = genes_ref (data_objs w ! self)
    \<and> exp_matrix (data_objs w' ! self) = Some m'
    \<and> position (data_objs w' ! self) = Some p'
    \<and> cell_name (cell_objs w' ! cells_ref (data_objs w ! self)) = Some names'
    \<and> length names' = length I \<and> length (vals m') = length I \<and> length p' = length I
    \<and> (\<forall>k < length I.
          names' ! k = names ! py_pos (length names) (I ! k)
        \<and> p' ! k = p ! py_pos (length names) (I ! k)
        \<and> vals m' ! k =
            (case gene_index of
               None \<Rightarrow> vals m ! py_pos (length names) (I ! k)
             | Some J \<Rightarrow> map (\<lambda>j. vals m ! py_pos (length names) (I ! k) ! py_pos (length gnames) j) J))
    \<and> (case gene_index of
          None \<Rightarrow> n_cols m' = n_cols m \<and> gene_objs w' = gene_objs w
        | Some J \<Rightarrow>
            n_cols m' = length J
          \<and> gene_name (gene_objs w' ! genes_ref (data_objs w ! self))
              = Some (map (\<lambda>j. gnames ! py_pos (length gnames) j) J))"
proof -
  define d where "d = data_objs w ! self"
  define c where "c = cells_ref d"
  define g where "g = genes_ref d"
  define n where "n = length names"
  have v: "self < length (data_objs w)" "c < length (cell_objs w)" "g < length (gene_objs w)"
    using assms(1) by (simp_all add: data_wf_def valid_data_def c_def g_def d_def)
  have wf: "matrix_wf m" "length p = length (vals m)" "cell_wf (cell_objs w ! c) (length (vals m))"
      "gene_wf (gene_objs w ! g) (n_cols m)"
    using assms(1) by (simp_all add: data_wf_def assms(2,3) c_def g_def d_def)
  have n: "length (vals m) = n" "length p = n"
    using wf(2,3) assms(4) by (simp_all add: cell_wf_def c_def d_def n_def)
  have gn: "length gnames = n_cols m"
    using wf(4) assms(5) by (simp add: gene_wf_def g_def d_def)
  have cw: "cell_wf (cell_objs w ! c) n"
    using wf(3) n(1) by simp
  have I: "\<forall>i \<in> set I. - int n \<le> i \<and> i < int n"
    using assms(6) by (simp add: n_def)
  define m1 where "m1 = m\<lparr>vals := map (\<lambda>i. vals m ! py_pos n i) I\<rparr>"
  define p1 where "p1 = map (\<lambda>i. p ! py_pos n i) I"
  define c1 where "c1 = (cell_objs w ! c)
             \<lparr>cell_name := map_option (\<lambda>a. map (\<lambda>i. a ! py_pos n i) I) (cell_name (cell_objs w ! c)),
              total_counts :=
                map_option (\<lambda>a. map (\<lambda>i. a ! py_pos n i) I) (total_counts (cell_objs w ! c)),
              pct_counts_mt :=
                map_option (\<lambda>a. map (\<lambda>i. a ! py_pos n i) I) (pct_counts_mt (cell_objs w ! c)),
              n_genes_by_counts :=
                map_option (\<lambda>a. map (\<lambda>i. a ! py_pos n i) I)
                  (n_genes_by_counts (cell_objs w ! c))\<rparr>"
  define w1 where "w1 = w\<lparr>data_objs := (data_objs w)[self := d\<lparr>exp_matrix := Some m1, position := Some p1\<rparr>],
       cell_objs := (cell_objs w)[c := c1]\<rparr>"
  have s1: "sub_by_cell_index w self I = (Inr (), w1)"
    using sub_by_cell_index_ok [OF v(1) _ _ assms(2,3) n(1,2) _ I, of c] v(2) cw
    unfolding w1_def m1_def p1_def c1_def d_def c_def by simp
  have names1: "cell_name c1 = Some (map (\<lambda>i. names ! py_pos n i) I)"
    using assms(4) by (simp add: c1_def c_def d_def)
  show ?thesis
  proof (cases gene_index)
    case None
    have "sub_by_index w self (Some I) gene_index = (Inr self, w1)"
      by (simp add: sub_by_index_def then_do_def s1 None)
    moreover have "length (data_objs w1) = length (data_objs w)"
      "\<forall>r. r \<noteq> self \<longrightarrow> data_objs w1 ! r = data_objs w ! r"
      "cells_ref (data_objs w1 ! self) = cells_ref (data_objs w ! self)"
      "genes_ref (data_objs w1 ! self) = genes_ref (data_objs w ! self)"
      "exp_matrix (data_objs w1 ! self) = Some m1"
      "position (data_objs w1 ! self) = Some p1"
      "cell_name (cell_objs w1 ! cells_ref (data_objs w ! self))
         = Some (map (\<lambda>i. names ! py_pos n i) I)"
      "gene_objs w1 = gene_objs w"
      using v names1 by (simp_all add: w1_def d_def c_def)
    moreover have "length (map (\<lambda>i. names ! py_pos n i) I) = length I"
      "length (vals m1) = length I" "length p1 = length I" "n_cols m1 = n_cols m"
      "\<forall>k < length I. map (\<lambda>i. names ! py_pos n i) I ! k = names ! py_pos n (I ! k)
          \<and> p1 ! k = p ! py_pos n (I ! k) \<and> vals m1 ! k = vals m ! py_pos n (I ! k)"
      by (simp_all add: m1_def p1_def)
    ultimately show ?thesis
      unfolding n_def None option.case by blast
  next
    case (Some J)
    have J: "\<forall>j \<in> set J. - int (n_cols m) \<le> j \<and> j < int (n_cols m)"
      using assms(7) Some gn by simp
    define m2 where "m2 = m1\<lparr>n_cols := length J,
                  vals := map (\<lambda>row. map (\<lambda>j. row ! py_pos (n_cols m) j) J) (vals m1)\<rparr>"
    define g2 where "g2 = (gene_objs w ! g)
             \<lparr>gene_name := map_option (\<lambda>a. map (\<lambda>i. a ! py_pos (n_cols m) i) J)
                             (gene_name (gene_objs w ! g)),
              gene_attrs := map (\<lambda>(k, a). (k, map (\<lambda>i. a ! py_pos (n_cols m) i) J))
                              (gene_attrs (gene_objs w ! g))\<rparr>"
    define w2 where "w2 = w1\<lparr>data_objs := (data_objs w1)
          [self := (data_objs w1 ! self)\<lparr>exp_matrix := Some m2\<rparr>],
       gene_objs := (gene_objs w1)[g := g2]\<rparr>"
    have f1: "self < length (data_objs w1)" "genes_ref (data_objs w1 ! self) = g"
        "g < length (gene_objs w1)" "exp_matrix (data_objs w1 ! self) = Some m1"
        "n_cols m1 = n_cols m" "gene_objs w1 ! g = gene_objs w ! g"
      using v by (simp_all add: w1_def m1_def g_def d_def)
    have s2: "sub_by_gene_index w1 self J = (Inr (), w2)"
      using sub_by_gene_index_ok [OF f1(1) _ _ f1(4,5) _ J, of g] f1(2,3,6) wf(4)
      unfolding w2_def m2_def g2_def by simp
    have "sub_by_index w self (Some I) gene_index = (Inr self, w2)"
      by (simp add: sub_by_index_def then_do_def s1 s2 Some)
    moreover have "length (data_objs w2) = length (data_objs w)"
      "\<forall>r. r \<noteq> self \<longrightarrow> data_objs w2 ! r = data_objs w ! r"
      "cells_ref (data_objs w2 ! self) = cells_ref (data_objs w ! self)"
      "genes_ref (data_objs w2 ! self) = genes_ref (data_objs w ! self)"
      "exp_matrix (data_objs w2 ! self) = Some m2"
      "position (data_objs w2 ! self) = Some p1"
      "cell_name (cell_objs w2 ! cells_ref (data_objs w ! self))
         = Some (map (\<lambda>i. names ! py_pos n i) I)"
      using v names1 by (simp_all add: w2_def w1_def d_def c_def)
    moreover have "gene_name (gene_objs w2 ! genes_ref (data_objs w ! self))
         = Some (map (\<lambda>j. gnames ! py_pos (length gnames) j) J)"
      using v assms(5) by (simp add: w2_def w1_def g2_def g_def d_def gn)
    moreover have "length (map (\<lambda>i. names ! py_pos n i) I) = length I"
      "length (vals m2) = length I" "length p1 = length I" "n_cols m2 = length J"
      "\<forall>k < length I. map (\<lambda>i. names ! py_pos n i) I ! k = names ! py_pos n (I ! k)
          \<and> p1 ! k = p ! py_pos n (I ! k)
          \<and> vals m2 ! k = map (\<lambda>j. vals m ! py_pos n (I ! k) ! py_pos (length gnames) j) J"
      by (simp_all add: m2_def m1_def p1_def gn)
    ultimately show ?thesis
      unfolding n_def Some option.case by blast
  qed
qed

text \<open>
  C4.  On a dataset that satisfies the invariant, with every index of the selection \<open>I\<close>
  in range (\<open>-n \<le> i < n\<close> for \<open>n\<close> cells, negative indices counting from the end,
  duplicates allowed), \<^verbatim>\<open>sub_by_index\<close> returns the reference it was called on and
  updates that object in place: no other dataset changes and the object keeps its Cell and
  its Gene.  Afterwards there are \<open>length I\<close> cell names, matrix rows and position rows,
  and entry \<open>k\<close> of each comes from position \<open>I ! k\<close> of the original.  With a gene
  selection \<open>J\<close> the columns of the matrix and the gene names are restricted to \<open>J\<close> in
  the same way; without one the columns and the Gene stay as they are.
\<close>

theorem sub_by_index_selects:
  assumes "data_wf w self"
    and "exp_matrix (data_objs w ! self) = Some m"
    and "position (data_objs w ! self) = Some p"
    and "cell_name (cell_objs w ! cells_ref (data_objs w ! self)) = Some names"
    and "gene_name (gene_objs w ! genes_ref (data_objs w ! self)) = Some gnames"
    and "\<forall>i \<in> set I. - int (length names) \<le> i \<and> i < int (length names)"
    and "\<forall>J. gene_index = Some J \<longrightarrow>
           (\<forall>j \<in> set J. - int (length gnames) \<le> j \<and> j < int (length gnames))"
  shows "\<exists>w' m' p' names'.
      sub_by_index w self (Some I) gene_index = (Inr self, w')
    \<and> length (data_objs w') = length (data_objs w)
    \<and> (\<forall>r. r \<noteq> self \<longrightarrow> data_objs w' ! r = data_objs w ! r)
    \<and> cells_ref (data_objs w' ! self) = cells_ref (data_objs w ! self)
    \<and> genes_ref (data_objs w' ! self) = genes_ref (data_objs w ! self)
    \<and> exp_matrix (data_objs w' ! self) = Some m'
    \<and> position (data_objs w' ! self) = Some p'
    \<and> cell_name (cell_objs w' ! cells_ref (data_objs w ! self)) = Some names'
    \<and> length names' = length I \<and> length (vals m') = length I \<and> length p' = length I
    \<and> (\<forall>k < length I.
          names' ! k = names ! py_pos (length names) (I ! k)
        \<and> p' ! k = p ! py_pos (length names) (I ! k)
        \<and> vals m' ! k =
            (case gene_index of
               None \<Rightarrow> vals m ! py_pos (length names) (I ! k)
             | Some J \<Rightarrow> map (\<lambda>j. vals m ! py_pos (length names) (I ! k) ! py_pos (length gnames) j) J))
    \<and> (case gene_index of
          None \<Rightarrow> n_cols m' = n_cols m \<and> gene_objs w' = gene_objs w
        | Some J \<Rightarrow>
            n_cols m' = length J
          \<and> gene_name (gene_objs w' ! genes_ref (data_objs w ! self))
              = Some (map (\<lambda>j. gnames ! py_pos (length gnames) j) J))"
  using sub_by_index_result [OF assms] .

theorem sub_by_index_selects_witness:
  "data_wf ex_world 0
   \<and> exp_matrix (data_objs ex_world ! 0)
       = Some \<lparr>repr = CSR, n_cols = 2, vals = [[1, 0], [0, 2], [3, 4]]\<rparr>
   \<and> cell_name (cell_objs ex_world ! cells_ref (data_objs ex_world ! 0))
       = Some [''0_0'', ''1_0'', ''0_1'']
   \<and> list_all (\<lambda>i. - 3 \<le> i \<and> i < 3) [2, 0, 2, - 1 :: int]
   \<and> (\<exists>w' m' p' names'.
        sub_by_index ex_world 0 (Some [2, 0, 2, - 1]) (Some [1]) = (Inr 0, w')
      \<and> exp_matrix (data_objs w' ! 0) = Some m'
      \<and> position (data_objs w' ! 0) = Some p'
      \<and> cell_name (cell_objs w' ! 0) = Some names'
      \<and> length names' = 4 \<and> length (vals m') = 4 \<and> length p' = 4
      \<and> names' ! 3 = ''0_1'' \<and> vals m' ! 1 = [0] \<and> vals m' ! 3 = [4] \<and> n_cols m' = 1)"
proof -
  let ?names = "[''0_0'', ''1_0'', ''0_1'']"
  let ?m = "\<lparr>repr = CSR, n_cols = 2, vals = [[1, 0], [0, 2], [3, 4]]\<rparr>"
  let ?p = "[[IntV 50, IntV 50], [IntV 150, IntV 50], [IntV 50, IntV 150]]"
  have h1: "data_wf ex_world 0"
    by (simp add: data_wf_def valid_data_def ex_world_def ex_data_def matrix_wf_def cell_wf_def
        gene_wf_def Cell_def Gene_def)
  have h2: "exp_matrix (data_objs ex_world ! 0) = Some ?m"
    and h3: "position (data_objs ex_world ! 0) = Some ?p"
    and h4: "cell_name (cell_objs ex_world ! cells_ref (data_objs ex_world ! 0)) = Some ?names"
    and h5: "gene_name (gene_objs ex_world ! genes_ref (data_objs ex_world ! 0))
               = Some [''G1'', ''G2'']"
    by (simp_all add: ex_world_def ex_data_def Cell_def Gene_def)
  have h6: "\<forall>i \<in> set [2, 0, 2, - 1]. - int (length ?names) \<le> i \<and> i < int (length ?names)"
    by simp
  have h7: "\<forall>J. Some [1] = Some J \<longrightarrow>
      (\<forall>j \<in> set J. - int (length [''G1'', ''G2'']) \<le> j \<and> j < int (length [''G1'', ''G2'']))"
    by simp
  have c: "cells_ref (data_objs ex_world ! 0) = 0"
    by (simp add: ex_world_def ex_data_def)
  from sub_by_index_selects [OF h1 h2 h3 h4 h5 h6 h7]
  obtain w' m' p' names' where r:
    "sub_by_index ex_world 0 (Some [2, 0, 2, - 1]) (Some [1]) = (Inr 0, w')"
    "exp_matrix (data_objs w' ! 0) = Some m'"
    "position (data_objs w' ! 0) = Some p'"
    "cell_name (cell_objs w' ! cells_ref (data_objs ex_world ! 0)) = Some names'"
    "length names' = length [2, 0, 2, - 1 :: int]"
    "length (vals m') = length [2, 0, 2, - 1 :: int]"
    "length p' = length [2, 0, 2, - 1 :: int]"
    "\<forall>k < length [2, 0, 2, - 1 :: int].
          names' ! k = ?names ! py_pos (length ?names) ([2, 0, 2, - 1] ! k)
        \<and> p' ! k = ?p ! py_pos (length ?names) ([2, 0, 2, - 1] ! k)
        \<and> vals m' ! k =
            (case Some [1] of
               None \<Rightarrow> vals ?m ! py_pos (length ?names) ([2, 0, 2, - 1] ! k)
             | Some J \<Rightarrow> map (\<lambda>j. vals ?m ! py_pos (length ?names) ([2, 0, 2, - 1] ! k)
                                    ! py_pos (length [''G1'', ''G2'']) j) J)"
    "n_cols m' = length [1 :: int]"
    by auto
  from r(8) have "names' ! 3 = ''0_1''" "vals m' ! 1 = [0]" "vals m' ! 3 = [4]"
    by (simp_all add: py_pos_def)
  with r(1-7,9) h1 h2 h4 show ?thesis
    unfolding c by auto
qed

subsection \<open>Subsetting by name\<close>

lemma out_of_bounds_zero:
  "out_of_bounds 0 0 0 = IndexError ''index 0 is out of bounds for axis 0 with size 0''"
  by code_simp

lemma argwhere_eq_empty: "argwhere_eq a x = [] \<longleftrightarrow> x \<notin> names_of a"
  by (cases a) (auto simp: argwhere_eq_def names_of_def filter_empty_conv in_set_conv_nth)

lemma first_index_cases:
  "first_index a x =
     (if x \<in> names_of a then Inr (int (hd (argwhere_eq a x))) else Inl (out_of_bounds 0 0 0))"
  using argwhere_eq_empty [of a x]
  by (cases "argwhere_eq a x") (auto simp: first_index_def)

lemma hd_argwhere:
  assumes "x \<in> set xs"
  shows "hd (argwhere_eq (Some xs) x) < length xs \<and> xs ! hd (argwhere_eq (Some xs) x) = x"
proof -
  have "argwhere_eq (Some xs) x \<noteq> []"
    using assms argwhere_eq_empty [of "Some xs" x] by (simp add: names_of_def)
  then have "hd (argwhere_eq (Some xs) x) \<in> set (argwhere_eq (Some xs) x)"
    by simp
  then show ?thesis
    by (simp add: argwhere_eq_def)
qed

lemma name_indices_cases:
  "name_indices a names =
     (if set names \<subseteq> names_of a then Inr (map (\<lambda>x. int (hd (argwhere_eq a x))) names)
      else Inl (out_of_bounds 0 0 0))"
  by (induction names) (auto simp: first_index_cases)

lemma deepcopy_eq:
  "deepcopy w self =
     (length (data_objs w),
      w\<lparr>cell_objs := cell_objs w @ [cell_objs w ! cells_ref (data_objs w ! self)],
        gene_objs := gene_objs w @ [gene_objs w ! genes_ref (data_objs w ! self)],
        data_objs := data_objs w @ [(data_objs w ! self)
           \<lparr>cells_ref := length (cell_objs w), genes_ref := length (gene_objs w)\<rparr>]\<rparr>)"
  by (simp add: deepcopy_def new_cell_def new_gene_def new_data_def Let_def)

lemma sub_by_cell_index_frame:
  assumes "sub_by_cell_index w self ix = (r, w')"
    and "c = cells_ref (data_objs w ! self)" and "self < length (data_objs w)"
  shows "length (data_objs w') = length (data_objs w)
    \<and> length (cell_objs w') = length (cell_objs w)
    \<and> gene_objs w' = gene_objs w \<and> files w' = files w \<and> logs w' = logs w
    \<and> (\<forall>k. k \<noteq> self \<longrightarrow> data_objs w' ! k = data_objs w ! k)
    \<and> (\<forall>k. k \<noteq> c \<longrightarrow> cell_objs w' ! k = cell_objs w ! k)
    \<and> cells_ref (data_objs w' ! self) = c
    \<and> genes_ref (data_objs w' ! self) = genes_ref (data_objs w ! self)"
  using assms
  by (auto simp: sub_by_cell_index_def then_do_def update_data_def update_cell_def Let_def
      split: option.splits sum.splits prod.splits)

lemma sub_by_gene_index_frame:
  assumes "sub_by_gene_index w self jx = (r, w')"
    and "g = genes_ref (data_objs w ! self)" and "self < length (data_objs w)"
  shows "length (data_objs w') = length (data_objs w)
    \<and> length (gene_objs w') = length (gene_objs w)
    \<and> cell_objs w' = cell_objs w \<and> files w' = files w \<and> logs w' = logs w
    \<and> (\<forall>k. k \<noteq> self \<longrightarrow> data_objs w' ! k = data_objs w ! k)
    \<and> (\<forall>k. k \<noteq> g \<longrightarrow> gene_objs w' ! k = gene_objs w ! k)
    \<and> cells_ref (data_objs w' ! self) = cells_ref (data_objs w ! self)
    \<and> genes_ref (data_objs w' ! self) = g"
  using assms
  by (auto simp: sub_by_gene_index_def then_do_def update_data_def update_gene_def Let_def
      split: option.splits sum.splits prod.splits)

lemma sub_by_index_frame:
  assumes "sub_by_index w self ci gi = (r, w')"
    and "c = cells_ref (data_objs w ! self)" and "g = genes_ref (data_objs w ! self)"
    and "self < length (data_objs w)"
  shows "length (data_objs w') = length (data_objs w)
    \<and> length (cell_objs w') = length (cell_objs w)
    \<and> length (gene_objs w') = length (gene_objs w)
    \<and> files w' = files w \<and> logs w' = logs w
    \<and> (\<forall>k. k \<noteq> self \<longrightarrow> data_objs w' ! k = data_objs w ! k)
    \<and> (\<forall>k. k \<noteq> c \<longrightarrow> cell_objs w' ! k = cell_objs w ! k)
    \<and> (\<forall>k. k \<noteq> g \<longrightarrow> gene_objs w' ! k = gene_objs w ! k)
    \<and> (\<forall>s. r = Inr s \<longrightarrow> s = self)"
proof -
  obtain r1 w1 where 1: "(case ci of None \<Rightarrow> (Inr (), w) | Some ix \<Rightarrow> sub_by_cell_index w self ix)
      = (r1, w1)"
    by fastforce
  have f1: "length (data_objs w1) = length (data_objs w)
    \<and> length (cell_objs w1) = length (cell_objs w)
    \<and> gene_objs w1 = gene_objs w \<and> files w1 = files w \<and> logs w1 = logs w
    \<and> (\<forall>k. k \<noteq> self \<longrightarrow> data_objs w1 ! k = data_objs w ! k)
    \<and> (\<forall>k. k \<noteq> c \<longrightarrow> cell_objs w1 ! k = cell_objs w ! k)
    \<and> cells_ref (data_objs w1 ! self) = c
    \<and> genes_ref (data_objs w1 ! self) = g"
  proof (cases ci)
    case None
    with 1 assms(2,3) show ?thesis by simp
  next
    case (Some ix)
    with 1 have "sub_by_cell_index w self ix = (r1, w1)" by simp
    from sub_by_cell_index_frame [OF this assms(2,4)] assms(3) show ?thesis by simp
  qed
  show ?thesis
  proof (cases r1)
    case (Inl e)
    with assms(1) 1 have "w' = w1" "r = Inl e"
      by (simp_all add: sub_by_index_def then_do_def)
    with f1 show ?thesis by simp
  next
    case (Inr u)
    obtain r2 w2 where 2: "(case gi of None \<Rightarrow> (Inr (), w1) | Some jx \<Rightarrow> sub_by_gene_index w1 self jx)
        = (r2, w2)"
      by fastforce
    have s1: "self < length (data_objs w1)"
      using f1 assms(4) by simp
    have f2: "length (data_objs w2) = length (data_objs w1)
      \<and> length (gene_objs w2) = length (gene_objs w1)
      \<and> cell_objs w2 = cell_objs w1 \<and> files w2 = files w1 \<and> logs w2 = logs w1
      \<and> (\<forall>k. k \<noteq> self \<longrightarrow> data_objs w2 ! k = data_objs w1 ! k)
      \<and> (\<forall>k. k \<noteq> g \<longrightarrow> gene_objs w2 ! k = gene_objs w1 ! k)"
    proof (cases gi)
      case None
      with 2 show ?thesis by simp
    next
      case (Some jx)
      with 2 have "sub_by_gene_index w1 self jx = (r2, w2)" by simp
      from sub_by_gene_index_frame [OF this _ s1, of g] f1 show ?thesis by simp
    qed
    from assms(1) 1 2 Inr have "w' = w2" "\<forall>s. r = Inr s \<longrightarrow> s = self"
      by (auto simp: sub_by_index_def then_do_def split: sum.splits)
    with f1 f2 show ?thesis by simp
  qed
qed


lemma sub_by_index_names:
  assumes "data_wf w self"
    and "cell_name (cell_objs w ! cells_ref (data_objs w ! self)) = Some names"
    and "gene_name (gene_objs w ! genes_ref (data_objs w ! self)) = Some gnames"
    and "\<forall>I. ci = Some I \<longrightarrow> (\<forall>i \<in> set I. - int (length names) \<le> i \<and> i < int (length names))"
    and "\<forall>J. gi = Some J \<longrightarrow> (\<forall>j \<in> set J. - int (length gnames) \<le> j \<and> j < int (length gnames))"
  shows "\<exists>w'. sub_by_index w self ci gi = (Inr self, w')
    \<and> cells_ref (data_objs w' ! self) = cells_ref (data_objs w ! self)
    \<and> genes_ref (data_objs w' ! self) = genes_ref (data_objs w ! self)
    \<and> cell_name (cell_objs w' ! cells_ref (data_objs w ! self))
        = Some (case ci of None \<Rightarrow> names | Some I \<Rightarrow> map (\<lambda>i. names ! py_pos (length names) i) I)
    \<and> gene_name (gene_objs w' ! genes_ref (data_objs w ! self))
        = Some (case gi of None \<Rightarrow> gnames
                | Some J \<Rightarrow> map (\<lambda>j. gnames ! py_pos (length gnames) j) J)"
proof -
  obtain m p where mp: "exp_matrix (data_objs w ! self) = Some m"
      "position (data_objs w ! self) = Some p"
    using assms(1) by (auto simp: data_wf_def split: option.splits)
  show ?thesis
  proof (cases ci)
    case (Some I)
    from assms(4) Some
    have I: "\<forall>i \<in> set I. - int (length names) \<le> i \<and> i < int (length names)"
      by simp
    from sub_by_index_result [OF assms(1) mp assms(2,3) I assms(5)]
    obtain w' m' p' names' where r0:
      "sub_by_index w self (Some I) gi = (Inr self, w')
    \<and> length (data_objs w') = length (data_objs w)
    \<and> (\<forall>r. r \<noteq> self \<longrightarrow> data_objs w' ! r = data_objs w ! r)
    \<and> cells_ref (data_objs w' ! self) = cells_ref (data_objs w ! self)
    \<and> genes_ref (data_objs w' ! self) = genes_ref (data_objs w ! self)
    \<and> exp_matrix (data_objs w' ! self) = Some m'
    \<and> position (data_objs w' ! self) = Some p'
    \<and> cell_name (cell_objs w' ! cells_ref (data_objs w ! self)) = Some names'
    \<and> length names' = length I \<and> length (vals m') = length I \<and> length p' = length I
    \<and> (\<forall>k < length I.
          names' ! k = names ! py_pos (length names) (I ! k)
        \<and> p' ! k = p ! py_pos (length names) (I ! k)
        \<and> vals m' ! k =
            (case gi of
               None \<Rightarrow> vals m ! py_pos (length names) (I ! k)
             | Some J \<Rightarrow> map (\<lambda>j. vals m ! py_pos (length names) (I ! k) ! py_pos (length gnames) j) J))
    \<and> (case gi of
          None \<Rightarrow> n_cols m' = n_cols m \<and> gene_objs w' = gene_objs w
        | Some J \<Rightarrow>
            n_cols m' = length J
          \<and> gene_name (gene_objs w' ! genes_ref (data_objs w ! self))
              = Some (map (\<lambda>j. gnames ! py_pos (length gnames) j) J))"
      by (elim exE) (erule that)
    have r:
      "sub_by_index w self (Some I) gi = (Inr self, w')"
      "cells_ref (data_objs w' ! self) = cells_ref (data_objs w ! self)"
      "genes_ref (data_objs w' ! self) = genes_ref (data_objs w ! self)"
      "cell_name (cell_objs w' ! cells_ref (data_objs w ! self)) = Some names'"
      "length names' = length I"
      "\<forall>k < length I. names' ! k = names ! py_pos (length names) (I ! k)"
      "case gi of
          None \<Rightarrow> n_cols m' = n_cols m \<and> gene_objs w' = gene_objs w
        | Some J \<Rightarrow>
            n_cols m' = length J
          \<and> gene_name (gene_objs w' ! genes_ref (data_objs w ! self))
              = Some (map (\<lambda>j. gnames ! py_pos (length gnames) j) J)"
      using r0 by simp_all
    have n: "names' = map (\<lambda>i. names ! py_pos (length names) i) I"
      using r(5,6) by (intro nth_equalityI) simp_all
    have g: "gene_name (gene_objs w' ! genes_ref (data_objs w ! self))
        = Some (case gi of None \<Rightarrow> gnames
                | Some J \<Rightarrow> map (\<lambda>j. gnames ! py_pos (length gnames) j) J)"
      using r(7) assms(3) by (cases gi) simp_all
    from r(1-4) n g Some show ?thesis by simp
  next
    case None
    show ?thesis
    proof (cases gi)
      case None
      with \<open>ci = None\<close> assms(2,3) show ?thesis
        by (simp add: sub_by_index_def then_do_def)
    next
      case (Some J)
      define g where "g = genes_ref (data_objs w ! self)"
      have v: "self < length (data_objs w)" "g < length (gene_objs w)"
          "cells_ref (data_objs w ! self) < length (cell_objs w)"
        using assms(1) by (simp_all add: data_wf_def valid_data_def g_def)
      have wf: "gene_wf (gene_objs w ! g) (n_cols m)"
        using assms(1) by (simp add: data_wf_def mp g_def)
      have gn: "length gnames = n_cols m"
        using wf assms(3) by (simp add: gene_wf_def g_def)
      have J: "\<forall>j \<in> set J. - int (n_cols m) \<le> j \<and> j < int (n_cols m)"
        using assms(5) Some gn by simp
      from sub_by_gene_index_ok [OF v(1) g_def v(2) mp(1) refl wf J]
      show ?thesis
        using v assms(2,3) \<open>ci = None\<close> Some
        by (simp add: sub_by_index_def then_do_def g_def [symmetric] gn)
    qed
  qed
qed

lemma int_hd_argwhere:
  assumes "set names \<subseteq> set xs"
  shows "\<forall>i \<in> set (map (\<lambda>x. int (hd (argwhere_eq (Some xs) x))) names).
            - int (length xs) \<le> i \<and> i < int (length xs)"
    and "map (\<lambda>i. xs ! py_pos (length xs) i) (map (\<lambda>x. int (hd (argwhere_eq (Some xs) x))) names)
           = names"
  using assms hd_argwhere [of _ xs]
  by (auto simp: py_pos_def subset_iff intro!: nth_equalityI)


lemma sub_by_name_unfold:
  "sub_by_name w self cell_names gene_names =
     (case (case cell_names of
              None \<Rightarrow> Inr None
            | Some names \<Rightarrow>
                (case name_indices (cell_name (cell_objs w ! cells_ref (data_objs w ! self))) names of
                   Inl e \<Rightarrow> Inl e
                 | Inr ks \<Rightarrow> Inr (Some ks))) of
        Inl e \<Rightarrow> (Inl e, snd (deepcopy w self))
      | Inr cell_index \<Rightarrow>
          (case (case gene_names of
                   None \<Rightarrow> Inr None
                 | Some names \<Rightarrow>
                     (case name_indices
                             (gene_name (gene_objs w ! genes_ref (data_objs w ! self))) names of
                        Inl e \<Rightarrow> Inl e
                      | Inr ks \<Rightarrow> Inr (Some ks))) of
             Inl e \<Rightarrow> (Inl e, snd (deepcopy w self))
           | Inr gene_index \<Rightarrow>
               sub_by_index (snd (deepcopy w self)) (length (data_objs w)) cell_index gene_index))"
  by (simp add: sub_by_name_def deepcopy_eq cong: sum.case_cong option.case_cong)

lemma deepcopy_frame:
  "length (data_objs (snd (deepcopy w self))) = Suc (length (data_objs w))"
  "length (cell_objs (snd (deepcopy w self))) = Suc (length (cell_objs w))"
  "length (gene_objs (snd (deepcopy w self))) = Suc (length (gene_objs w))"
  "k < length (data_objs w) \<Longrightarrow> data_objs (snd (deepcopy w self)) ! k = data_objs w ! k"
  "k < length (cell_objs w) \<Longrightarrow> cell_objs (snd (deepcopy w self)) ! k = cell_objs w ! k"
  "k < length (gene_objs w) \<Longrightarrow> gene_objs (snd (deepcopy w self)) ! k = gene_objs w ! k"
  "files (snd (deepcopy w self)) = files w" "logs (snd (deepcopy w self)) = logs w"
  "cells_ref (data_objs (snd (deepcopy w self)) ! length (data_objs w)) = length (cell_objs w)"
  "genes_ref (data_objs (snd (deepcopy w self)) ! length (data_objs w)) = length (gene_objs w)"
  "cell_objs (snd (deepcopy w self)) ! length (cell_objs w)
     = cell_objs w ! cells_ref (data_objs w ! self)"
  "gene_objs (snd (deepcopy w self)) ! length (gene_objs w)
     = gene_objs w ! genes_ref (data_objs w ! self)"
  by (simp_all add: deepcopy_eq nth_append)

lemma deepcopy_wf:
  assumes "data_wf w self"
  shows "data_wf (snd (deepcopy w self)) (length (data_objs w))"
  using assms by (simp add: data_wf_def valid_data_def deepcopy_eq split: option.splits)

lemma sub_by_name_result:
  assumes "data_wf w self"
    and "cell_name (cell_objs w ! cells_ref (data_objs w ! self)) = Some cnames"
    and "gene_name (gene_objs w ! genes_ref (data_objs w ! self)) = Some gnames"
    and "\<forall>names. cell_names = Some names \<longrightarrow> set names \<subseteq> set cnames"
    and "\<forall>names. gene_names = Some names \<longrightarrow> set names \<subseteq> set gnames"
  shows "\<exists>w'. sub_by_name w self cell_names gene_names = (Inr (length (data_objs w)), w')
    \<and> length (data_objs w) \<noteq> self
    \<and> (\<forall>k < length (data_objs w). data_objs w' ! k = data_objs w ! k)
    \<and> (\<forall>k < length (cell_objs w). cell_objs w' ! k = cell_objs w ! k)
    \<and> (\<forall>k < length (gene_objs w). gene_objs w' ! k = gene_objs w ! k)
    \<and> files w' = files w \<and> logs w' = logs w
    \<and> data_objs w' ! self = data_objs w ! self
    \<and> cell_objs w' ! cells_ref (data_objs w ! self) = cell_objs w ! cells_ref (data_objs w ! self)
    \<and> gene_objs w' ! genes_ref (data_objs w ! self) = gene_objs w ! genes_ref (data_objs w ! self)
    \<and> cells_ref (data_objs w' ! length (data_objs w)) = length (cell_objs w)
    \<and> genes_ref (data_objs w' ! length (data_objs w)) = length (gene_objs w)
    \<and> cell_name (cell_objs w' ! length (cell_objs w))
        = Some (case cell_names of None \<Rightarrow> cnames | Some names \<Rightarrow> names)
    \<and> gene_name (gene_objs w' ! length (gene_objs w))
        = Some (case gene_names of None \<Rightarrow> gnames | Some names \<Rightarrow> names)"
proof -
  define w0 where "w0 = snd (deepcopy w self)"
  define new where "new = length (data_objs w)"
  define ci where "ci = map_option (map (\<lambda>x. int (hd (argwhere_eq (Some cnames) x)))) cell_names"
  define gi where "gi = map_option (map (\<lambda>x. int (hd (argwhere_eq (Some gnames) x)))) gene_names"
  have v: "self < length (data_objs w)" "cells_ref (data_objs w ! self) < length (cell_objs w)"
      "genes_ref (data_objs w ! self) < length (gene_objs w)"
    using assms(1) by (simp_all add: data_wf_def valid_data_def)
  have u: "sub_by_name w self cell_names gene_names = sub_by_index w0 new ci gi"
    using assms(4,5)
    by (cases cell_names; cases gene_names)
       (simp_all add: sub_by_name_unfold assms(2,3) name_indices_cases names_of_def
          w0_def new_def ci_def gi_def)
  have wf0: "data_wf w0 new"
    unfolding w0_def new_def by (rule deepcopy_wf [OF assms(1)])
  have c0: "cells_ref (data_objs w0 ! new) = length (cell_objs w)"
    and g0: "genes_ref (data_objs w0 ! new) = length (gene_objs w)"
    and cn0: "cell_name (cell_objs w0 ! cells_ref (data_objs w0 ! new)) = Some cnames"
    and gn0: "gene_name (gene_objs w0 ! genes_ref (data_objs w0 ! new)) = Some gnames"
    by (simp_all add: w0_def new_def deepcopy_frame assms(2,3))
  have ci: "\<forall>I. ci = Some I \<longrightarrow>
      (\<forall>i \<in> set I. - int (length cnames) \<le> i \<and> i < int (length cnames))"
    using assms(4) int_hd_argwhere(1) [of _ cnames] by (auto simp: ci_def)
  have gi: "\<forall>J. gi = Some J \<longrightarrow>
      (\<forall>j \<in> set J. - int (length gnames) \<le> j \<and> j < int (length gnames))"
    using assms(5) int_hd_argwhere(1) [of _ gnames] by (auto simp: gi_def)
  from sub_by_index_names [OF wf0 cn0 gn0 ci gi]
  obtain w' where r: "sub_by_index w0 new ci gi = (Inr new, w')"
    "cell_name (cell_objs w' ! cells_ref (data_objs w0 ! new))
        = Some (case ci of None \<Rightarrow> cnames
                | Some I \<Rightarrow> map (\<lambda>i. cnames ! py_pos (length cnames) i) I)"
    "gene_name (gene_objs w' ! genes_ref (data_objs w0 ! new))
        = Some (case gi of None \<Rightarrow> gnames
                | Some J \<Rightarrow> map (\<lambda>j. gnames ! py_pos (length gnames) j) J)"
    "cells_ref (data_objs w' ! new) = cells_ref (data_objs w0 ! new)"
    "genes_ref (data_objs w' ! new) = genes_ref (data_objs w0 ! new)"
    by blast
  have cn: "(case ci of None \<Rightarrow> cnames | Some I \<Rightarrow> map (\<lambda>i. cnames ! py_pos (length cnames) i) I)
      = (case cell_names of None \<Rightarrow> cnames | Some names \<Rightarrow> names)"
    using assms(4) int_hd_argwhere(2) [of _ cnames] by (cases cell_names) (simp_all add: ci_def)
  have gn: "(case gi of None \<Rightarrow> gnames | Some J \<Rightarrow> map (\<lambda>j. gnames ! py_pos (length gnames) j) J)
      = (case gene_names of None \<Rightarrow> gnames | Some names \<Rightarrow> names)"
    using assms(5) int_hd_argwhere(2) [of _ gnames] by (cases gene_names) (simp_all add: gi_def)
  have n0: "new < length (data_objs w0)"
    by (simp add: w0_def new_def deepcopy_frame)
  from sub_by_index_frame [OF r(1) refl refl n0]
  have f: "length (data_objs w') = length (data_objs w0)"
    "files w' = files w0" "logs w' = logs w0"
    "\<forall>k. k \<noteq> new \<longrightarrow> data_objs w' ! k = data_objs w0 ! k"
    "\<forall>k. k \<noteq> length (cell_objs w) \<longrightarrow> cell_objs w' ! k = cell_objs w0 ! k"
    "\<forall>k. k \<noteq> length (gene_objs w) \<longrightarrow> gene_objs w' ! k = gene_objs w0 ! k"
    unfolding c0 g0 by simp_all
  have old: "\<forall>k < length (data_objs w). data_objs w' ! k = data_objs w ! k"
    "\<forall>k < length (cell_objs w). cell_objs w' ! k = cell_objs w ! k"
    "\<forall>k < length (gene_objs w). gene_objs w' ! k = gene_objs w ! k"
    "files w' = files w" "logs w' = logs w"
    using f by (simp_all add: w0_def new_def deepcopy_frame)
  have "sub_by_name w self cell_names gene_names = (Inr (length (data_objs w)), w')"
    using u r(1) by (simp add: new_def)
  moreover have "length (data_objs w) \<noteq> self"
    using v(1) by simp
  moreover have "data_objs w' ! self = data_objs w ! self"
    "cell_objs w' ! cells_ref (data_objs w ! self) = cell_objs w ! cells_ref (data_objs w ! self)"
    "gene_objs w' ! genes_ref (data_objs w ! self) = gene_objs w ! genes_ref (data_objs w ! self)"
    using old(1-3) v by simp_all
  moreover have "cells_ref (data_objs w' ! length (data_objs w)) = length (cell_objs w)"
    "genes_ref (data_objs w' ! length (data_objs w)) = length (gene_objs w)"
    using r(4,5) c0 g0 by (simp_all add: new_def)
  moreover have "cell_name (cell_objs w' ! length (cell_objs w))
        = Some (case cell_names of None \<Rightarrow> cnames | Some names \<Rightarrow> names)"
    "gene_name (gene_objs w' ! length (gene_objs w))
        = Some (case gene_names of None \<Rightarrow> gnames | Some names \<Rightarrow> names)"
    using r(2,3) unfolding c0 g0 cn gn by simp_all
  ultimately show ?thesis
    using old by blast
qed

lemma sub_by_name_missing:
  assumes "(\<exists>names. cell_names = Some names
              \<and> \<not> set names \<subseteq> names_of (cell_name (cell_objs w ! cells_ref (data_objs w ! self))))
         \<or> (\<exists>names. gene_names = Some names
              \<and> \<not> set names \<subseteq> names_of (gene_name (gene_objs w ! genes_ref (data_objs w ! self))))"
  shows "sub_by_name w self cell_names gene_names =
           (Inl (IndexError ''index 0 is out of bounds for axis 0 with size 0''),
            snd (deepcopy w self))"
  using assms
  by (cases cell_names; cases gene_names)
     (auto simp: sub_by_name_unfold name_indices_cases out_of_bounds_zero)

lemma sub_by_name_frame:
  assumes "sub_by_name w self cell_names gene_names = (r, w')"
  shows "(\<forall>k < length (data_objs w). data_objs w' ! k = data_objs w ! k)
    \<and> (\<forall>k < length (cell_objs w). cell_objs w' ! k = cell_objs w ! k)
    \<and> (\<forall>k < length (gene_objs w). gene_objs w' ! k = gene_objs w ! k)
    \<and> files w' = files w \<and> logs w' = logs w
    \<and> (\<forall>s. r = Inr s \<longrightarrow> s = length (data_objs w))"
proof -
  define w0 where "w0 = snd (deepcopy w self)"
  have base: "(\<forall>k < length (data_objs w). data_objs w0 ! k = data_objs w ! k)
    \<and> (\<forall>k < length (cell_objs w). cell_objs w0 ! k = cell_objs w ! k)
    \<and> (\<forall>k < length (gene_objs w). gene_objs w0 ! k = gene_objs w ! k)
    \<and> files w0 = files w \<and> logs w0 = logs w"
    by (simp add: w0_def deepcopy_frame)
  consider (fail) e where "r = Inl e" "w' = w0"
    | (run) ci gi where "sub_by_index w0 (length (data_objs w)) ci gi = (r, w')"
    using assms unfolding sub_by_name_unfold w0_def [symmetric]
    by (auto split: sum.splits option.splits)
  then show ?thesis
  proof cases
    case fail
    with base show ?thesis by simp
  next
    case run
    have n: "length (data_objs w) < length (data_objs w0)"
      by (simp add: w0_def deepcopy_frame)
    from sub_by_index_frame [OF run refl refl n]
    have f: "\<forall>k. k \<noteq> length (data_objs w) \<longrightarrow> data_objs w' ! k = data_objs w0 ! k"
      "\<forall>k. k \<noteq> length (cell_objs w) \<longrightarrow> cell_objs w' ! k = cell_objs w0 ! k"
      "\<forall>k. k \<noteq> length (gene_objs w) \<longrightarrow> gene_objs w' ! k = gene_objs w0 ! k"
      "files w' = files w0" "logs w' = logs w0"
      "\<forall>s. r = Inr s \<longrightarrow> s = length (data_objs w)"
      by (simp_all add: w0_def deepcopy_frame)
    with base show ?thesis by simp
  qed
qed

text \<open>
  C7.  \<^verbatim>\<open>sub_by_name\<close> works on a deep copy.  Whatever the outcome of the call, every object
  that existed before it is as it was: the receiver keeps its matrix, position and bin
  type, and its Cell and its Gene are untouched; a reference that the call returns is a
  new one, different from the receiver.  When the dataset satisfies the invariant and every
  requested cell and gene name is present, the call succeeds, and the new object has a Cell
  and a Gene of its own that hold the requested names, in the requested order.
\<close>

theorem sub_by_name_keeps_receiver:
  assumes "valid_data w self"
    and "sub_by_name w self cell_names gene_names = (r, w')"
  shows "(\<forall>k < length (data_objs w). data_objs w' ! k = data_objs w ! k)
    \<and> (\<forall>k < length (cell_objs w). cell_objs w' ! k = cell_objs w ! k)
    \<and> (\<forall>k < length (gene_objs w). gene_objs w' ! k = gene_objs w ! k)
    \<and> files w' = files w \<and> logs w' = logs w
    \<and> data_objs w' ! self = data_objs w ! self
    \<and> cell_objs w' ! cells_ref (data_objs w ! self) = cell_objs w ! cells_ref (data_objs w ! self)
    \<and> gene_objs w' ! genes_ref (data_objs w ! self) = gene_objs w ! genes_ref (data_objs w ! self)
    \<and> (\<forall>s. r = Inr s \<longrightarrow> s = length (data_objs w) \<and> s \<noteq> self)
    \<and> (data_wf w self
        \<and> cell_name (cell_objs w ! cells_ref (data_objs w ! self)) = Some cnames
        \<and> gene_name (gene_objs w ! genes_ref (data_objs w ! self)) = Some gnames
        \<and> (\<forall>names. cell_names = Some names \<longrightarrow> set names \<subseteq> set cnames)
        \<and> (\<forall>names. gene_names = Some names \<longrightarrow> set names \<subseteq> set gnames)
        \<longrightarrow> r = Inr (length (data_objs w))
          \<and> cells_ref (data_objs w' ! length (data_objs w)) = length (cell_objs w)
          \<and> genes_ref (data_objs w' ! length (data_objs w)) = length (gene_objs w)
          \<and> cell_name (cell_objs w' ! length (cell_objs w))
              = Some (case cell_names of None \<Rightarrow> cnames | Some names \<Rightarrow> names)
          \<and> gene_name (gene_objs w' ! length (gene_objs w))
              = Some (case gene_names of None \<Rightarrow> gnames | Some names \<Rightarrow> names))"
proof -
  have v: "self < length (data_objs w)" "cells_ref (data_objs w ! self) < length (cell_objs w)"
      "genes_ref (data_objs w ! self) < length (gene_objs w)"
    using assms(1) by (simp_all add: valid_data_def)
  note f = sub_by_name_frame [OF assms(2)]
  have "data_objs w' ! self = data_objs w ! self"
    "cell_objs w' ! cells_ref (data_objs w ! self) = cell_objs w ! cells_ref (data_objs w ! self)"
    "gene_objs w' ! genes_ref (data_objs w ! self) = gene_objs w ! genes_ref (data_objs w ! self)"
    "\<forall>s. r = Inr s \<longrightarrow> s = length (data_objs w) \<and> s \<noteq> self"
    using f v by auto
  moreover have "r = Inr (length (data_objs w))
          \<and> cells_ref (data_objs w' ! length (data_objs w)) = length (cell_objs w)
          \<and> genes_ref (data_objs w' ! length (data_objs w)) = length (gene_objs w)
          \<and> cell_name (cell_objs w' ! length (cell_objs w))
              = Some (case cell_names of None \<Rightarrow> cnames | Some names \<Rightarrow> names)
          \<and> gene_name (gene_objs w' ! length (gene_objs w))
              = Some (case gene_names of None \<Rightarrow> gnames | Some names \<Rightarrow> names)"
    if "data_wf w self"
      "cell_name (cell_objs w ! cells_ref (data_objs w ! self)) = Some cnames"
      "gene_name (gene_objs w ! genes_ref (data_objs w ! self)) = Some gnames"
      "\<forall>names. cell_names = Some names \<longrightarrow> set names \<subseteq> set cnames"
      "\<forall>names. gene_names = Some names \<longrightarrow> set names \<subseteq> set gnames"
    using sub_by_name_result [OF that] assms(2) by auto
  ultimately show ?thesis
    using f by blast
qed


theorem sub_by_name_keeps_receiver_witness:
  "valid_data ex_world 0 \<and> data_wf ex_world 0
   \<and> fst (sub_by_name ex_world 0 (Some [''0_1'', ''0_0'']) (Some [''G2''])) = Inr 1
   \<and> data_objs (snd (sub_by_name ex_world 0 (Some [''0_1'', ''0_0'']) (Some [''G2''])))
        ! 0 = data_objs ex_world ! 0
   \<and> cell_objs (snd (sub_by_name ex_world 0 (Some [''0_1'', ''0_0'']) (Some [''G2''])))
        ! 0 = cell_objs ex_world ! 0
   \<and> gene_objs (snd (sub_by_name ex_world 0 (Some [''0_1'', ''0_0'']) (Some [''G2''])))
        ! 0 = gene_objs ex_world ! 0
   \<and> cell_name (cell_objs
        (snd (sub_by_name ex_world 0 (Some [''0_1'', ''0_0'']) (Some [''G2'']))) ! 1)
       = Some [''0_1'', ''0_0'']
   \<and> gene_name (gene_objs
        (snd (sub_by_name ex_world 0 (Some [''0_1'', ''0_0'']) (Some [''G2'']))) ! 1)
       = Some [''G2'']"
proof -
  define s where "s = sub_by_name ex_world 0 (Some [''0_1'', ''0_0'']) (Some [''G2''])"
  have h0: "valid_data ex_world 0"
    by (simp add: valid_data_def ex_world_def ex_data_def)
  have h1: "data_wf ex_world 0"
    by (simp add: data_wf_def valid_data_def ex_world_def ex_data_def matrix_wf_def cell_wf_def
        gene_wf_def Cell_def Gene_def)
  have h2: "cell_name (cell_objs ex_world ! cells_ref (data_objs ex_world ! 0))
              = Some [''0_0'', ''1_0'', ''0_1'']"
    and h3: "gene_name (gene_objs ex_world ! genes_ref (data_objs ex_world ! 0))
              = Some [''G1'', ''G2'']"
    by (simp_all add: ex_world_def ex_data_def Cell_def Gene_def)
  have h4: "\<forall>names. Some [''0_1'', ''0_0''] = Some names
              \<longrightarrow> set names \<subseteq> set [''0_0'', ''1_0'', ''0_1'']"
    and h5: "\<forall>names. Some [''G2''] = Some names \<longrightarrow> set names \<subseteq> set [''G1'', ''G2'']"
    by auto
  have l: "length (data_objs ex_world) = 1" "length (cell_objs ex_world) = 1"
    "length (gene_objs ex_world) = 1" "cells_ref (data_objs ex_world ! 0) = 0"
    "genes_ref (data_objs ex_world ! 0) = 0"
    by (simp_all add: ex_world_def ex_data_def)
  have p: "sub_by_name ex_world 0 (Some [''0_1'', ''0_0'']) (Some [''G2'']) = (fst s, snd s)"
    by (simp add: s_def)
  note t = sub_by_name_keeps_receiver [OF h0 p, of "[''0_0'', ''1_0'', ''0_1'']" "[''G1'', ''G2'']",
      unfolded l]
  note t5 = t [THEN conjunct2, THEN conjunct2, THEN conjunct2, THEN conjunct2, THEN conjunct2]
  note t8 = t5 [THEN conjunct2, THEN conjunct2, THEN conjunct2]
  have a: "data_objs (snd s) ! 0 = data_objs ex_world ! 0"
    by (rule t5 [THEN conjunct1])
  have a': "cell_objs (snd s) ! 0 = cell_objs ex_world ! 0"
    by (rule t5 [THEN conjunct2, THEN conjunct1])
  have a'': "gene_objs (snd s) ! 0 = gene_objs ex_world ! 0"
    by (rule t5 [THEN conjunct2, THEN conjunct2, THEN conjunct1])
  have H: "data_wf ex_world 0
        \<and> cell_name (cell_objs ex_world ! 0) = Some [''0_0'', ''1_0'', ''0_1'']
        \<and> gene_name (gene_objs ex_world ! 0) = Some [''G1'', ''G2'']
        \<and> (\<forall>names. Some [''0_1'', ''0_0''] = Some names
              \<longrightarrow> set names \<subseteq> set [''0_0'', ''1_0'', ''0_1''])
        \<and> (\<forall>names. Some [''G2''] = Some names \<longrightarrow> set names \<subseteq> set [''G1'', ''G2''])"
    using h1 h2 [unfolded l] h3 [unfolded l] h4 h5 by (intro conjI)
  note c = t8 [THEN conjunct2, THEN mp, OF H]
  have b: "fst s = Inr 1"
    by (rule c [THEN conjunct1])
  have b': "cell_name (cell_objs (snd s) ! 1) = Some [''0_1'', ''0_0'']"
    using c [THEN conjunct2, THEN conjunct2, THEN conjunct2, THEN conjunct1]
    by (simp only: option.case)
  have b'': "gene_name (gene_objs (snd s) ! 1) = Some [''G2'']"
    using c [THEN conjunct2, THEN conjunct2, THEN conjunct2, THEN conjunct2]
    by (simp only: option.case)
  show ?thesis
    unfolding s_def [symmetric] by (intro conjI h0 h1 a a' a'' b b' b'')
qed

text \<open>
  C6, as the code has it.  When a requested cell name or gene name is absent from the names
  of the dataset, \<^verbatim>\<open>sub_by_name\<close> fails with the IndexError that numpy raises for element
  0 of the empty result of \<^verbatim>\<open>argwhere\<close>.  The message is the same for every key; the
  receiver is untouched, only the copy has been made.
\<close>

theorem sub_by_name_missing_name:
  assumes "(\<exists>names. cell_names = Some names
              \<and> \<not> set names \<subseteq> names_of (cell_name (cell_objs w ! cells_ref (data_objs w ! self))))
         \<or> (\<exists>names. gene_names = Some names
              \<and> \<not> set names \<subseteq> names_of (gene_name (gene_objs w ! genes_ref (data_objs w ! self))))"
  shows "sub_by_name w self cell_names gene_names =
           (Inl (IndexError ''index 0 is out of bounds for axis 0 with size 0''),
            snd (deepcopy w self))"
  using sub_by_name_missing [OF assms] .

theorem sub_by_name_missing_name_witness:
  "''9_9'' \<notin> names_of (cell_name (cell_objs ex_world ! cells_ref (data_objs ex_world ! 0)))
   \<and> sub_by_name ex_world 0 (Some [''0_0'', ''9_9'']) None =
        (Inl (IndexError ''index 0 is out of bounds for axis 0 with size 0''),
         snd (deepcopy ex_world 0))
   \<and> data_objs (snd (deepcopy ex_world 0)) ! 0 = data_objs ex_world ! 0"
proof -
  have h: "''9_9'' \<notin> names_of (cell_name (cell_objs ex_world ! cells_ref (data_objs ex_world ! 0)))"
    by (simp add: names_of_def ex_world_def ex_data_def Cell_def)
  then have "(\<exists>names. Some [''0_0'', ''9_9''] = Some names
              \<and> \<not> set names
                   \<subseteq> names_of (cell_name (cell_objs ex_world ! cells_ref (data_objs ex_world ! 0))))
         \<or> (\<exists>names. None = Some names
              \<and> \<not> set names
                   \<subseteq> names_of (gene_name (gene_objs ex_world ! genes_ref (data_objs ex_world ! 0))))"
    by simp
  from sub_by_name_missing_name [OF this] h show ?thesis
    by (simp add: deepcopy_frame ex_world_def)
qed

text \<open>
  The claim C6 as the spec states it fails: requesting the gene \<^verbatim>\<open>G9\<close>, which the
  dataset does not have, raises an IndexError whose message does not contain the key.
\<close>

theorem sub_by_name_error_omits_key:
  "''G9'' \<notin> set [''G1'', ''G2'']
   \<and> gene_name (gene_objs ex_world ! genes_ref (data_objs ex_world ! 0)) = Some [''G1'', ''G2'']
   \<and> fst (sub_by_name ex_world 0 None (Some [''G9'']))
       = Inl (IndexError ''index 0 is out of bounds for axis 0 with size 0'')
   \<and> \<not> sublist ''G9'' ''index 0 is out of bounds for axis 0 with size 0''"
  by code_simp

subsection \<open>Writing and reading the container\<close>

lemma sorted_keys:
  "sort [''genes'', ''cells''] = [''cells'', ''genes'']"
  "sort [''genes'', ''cells'', ''position''] = [''cells'', ''genes'', ''position'']"
  "sort [''genes'', ''cells'', ''exp_matrix''] = [''cells'', ''exp_matrix'', ''genes'']"
  "sort [''genes'', ''cells'', ''bin_type''] = [''bin_type'', ''cells'', ''genes'']"
  "sort [''genes'', ''cells'', ''position'', ''exp_matrix'']
     = [''cells'', ''exp_matrix'', ''genes'', ''position'']"
  "sort [''genes'', ''cells'', ''position'', ''bin_type'']
     = [''bin_type'', ''cells'', ''genes'', ''position'']"
  "sort [''genes'', ''cells'', ''exp_matrix'', ''bin_type'']
     = [''bin_type'', ''cells'', ''exp_matrix'', ''genes'']"
  "sort [''genes'', ''cells'', ''position'', ''exp_matrix'', ''bin_type'']
     = [''bin_type'', ''cells'', ''exp_matrix'', ''genes'', ''position'']"
  by code_simp+

lemma read_group_cell:
  "read_group ''cell'' (cell_members c) = CellObj (c\<lparr>cell_point := None\<rparr>)"
  by (cases "cell_name c"; cases "total_counts c"; cases "pct_counts_mt c";
      cases "n_genes_by_counts c")
     (simp_all add: read_group_def cell_members_def names_member_def array_member_def)

lemma map_filter_attrs:
  "List.map_filter (\<lambda>(k, v). case v of H5Array a \<Rightarrow> Some (k, a) | _ \<Rightarrow> None)
     (map (\<lambda>(k, a). (k, H5Array a)) xs) = xs"
  by (induction xs) (auto simp: List.map_filter_simps)

lemma names_member_attrs:
  "names_member (map (\<lambda>(k, a). (k, H5Array a)) xs) key = None"
  by (induction xs) (auto simp: names_member_def split: option.splits h5value.splits)

lemma read_group_gene:
  "read_group ''gene'' (gene_members g) = GeneObj g"
proof (cases "gene_name g")
  case None
  then show ?thesis
    by (simp add: read_group_def gene_members_def map_filter_attrs names_member_attrs)
next
  case (Some a)
  then show ?thesis
    by (simp add: read_group_def gene_members_def map_filter_attrs names_member_def
        List.map_filter_simps)
qed

lemma write_h5ad_ok:
  assumes "output_path (data_objs w ! self) = Some path"
  shows "write_h5ad w self =
    (Inr (),
     store_file path
       ([(''genes'', Group ''gene'' (gene_members (gene_objs w ! genes_ref (data_objs w ! self)))),
         (''cells'', Group ''cell'' (cell_members (cell_objs w ! cells_ref (data_objs w ! self))))]
        @ (case position (data_objs w ! self) of
             None \<Rightarrow> [] | Some a \<Rightarrow> [(''position'', Dataset (H5Array2 a))])
        @ (case exp_matrix (data_objs w ! self) of
             None \<Rightarrow> []
           | Some m \<Rightarrow>
               [(''exp_matrix'',
                 if repr m = Dense then Dataset (H5Matrix (n_cols m) (vals m))
                 else Group (if repr m = CSR then ''csr'' else ''csc'')
                        [(''data'', H5Matrix (n_cols m) (vals m))])])
        @ (case bin_type (data_objs w ! self) of
             None \<Rightarrow> [] | Some b \<Rightarrow> [(''bin_type'', Dataset (H5Str b))])) w)"
  using assms
  by (cases "position (data_objs w ! self)"; cases "exp_matrix (data_objs w ! self)";
      cases "bin_type (data_objs w ! self)")
     (simp_all add: write_h5ad_def Let_def)

lemma matrix_rebuild:
  fixes m :: matrix
  shows "repr m = r \<Longrightarrow> \<lparr>repr = r, n_cols = n_cols m, vals = vals m\<rparr> = m"
  by (cases m) simp

lemma read_keys_back:
  assumes "f = [(''genes'', Group ''gene'' (gene_members g)),
                (''cells'', Group ''cell'' (cell_members c))]
        @ (case pos of None \<Rightarrow> [] | Some a \<Rightarrow> [(''position'', Dataset (H5Array2 a))])
        @ (case mat of
             None \<Rightarrow> []
           | Some m \<Rightarrow>
               [(''exp_matrix'',
                 if repr m = Dense then Dataset (H5Matrix (n_cols m) (vals m))
                 else Group (if repr m = CSR then ''csr'' else ''csc'')
                        [(''data'', H5Matrix (n_cols m) (vals m))])])
        @ (case bt of None \<Rightarrow> [] | Some b \<Rightarrow> [(''bin_type'', Dataset (H5Str b))])"
    and "bt \<in> {None, Some ''bins'', Some ''cell_bins''}"
    and "rd < length (data_objs w)"
  shows "\<exists>w'. read_keys f (h5_keys f) w rd = (Inr (), w')
    \<and> cell_objs w' = cell_objs w @ [c\<lparr>cell_point := None\<rparr>]
    \<and> gene_objs w' = gene_objs w @ [g]
    \<and> length (data_objs w') = length (data_objs w)
    \<and> (\<forall>k. k \<noteq> rd \<longrightarrow> data_objs w' ! k = data_objs w ! k)
    \<and> cells_ref (data_objs w' ! rd) = length (cell_objs w)
    \<and> genes_ref (data_objs w' ! rd) = length (gene_objs w)
    \<and> position (data_objs w' ! rd)
        = (case pos of None \<Rightarrow> position (data_objs w ! rd) | Some a \<Rightarrow> Some a)
    \<and> exp_matrix (data_objs w' ! rd)
        = (case mat of None \<Rightarrow> exp_matrix (data_objs w ! rd) | Some m \<Rightarrow> Some m)
    \<and> bin_type (data_objs w' ! rd)
        = (case bt of None \<Rightarrow> bin_type (data_objs w ! rd) | Some b \<Rightarrow> Some b)"
proof -
  have m: "\<And>m. (case (case (if repr m = Dense then Dataset (H5Matrix (n_cols m) (vals m))
                else Group (if repr m = CSR then ''csr'' else ''csc'')
                       [(''data'', H5Matrix (n_cols m) (vals m))]) of
            Group tag members \<Rightarrow> read_group tag members
          | Dataset v \<Rightarrow> read_dataset v) of
      MatrixObj m' \<Rightarrow> (Inr (), update_data rd (\<lambda>d. d\<lparr>exp_matrix := Some m'\<rparr>) w')
      | _ \<Rightarrow> (Inl wrong_kind, w')) = (Inr (), update_data rd (\<lambda>d. d\<lparr>exp_matrix := Some m\<rparr>) w')"
    for w'
    subgoal for m by (cases "repr m") (simp_all add: read_group_def matrix_rebuild)
    done
  consider "bt = None" | "bt = Some ''bins''" | "bt = Some ''cell_bins''"
    using assms(2) by auto
  then show ?thesis
  proof cases
    case 1
    with assms(3) show ?thesis
      unfolding assms(1)
      by (cases pos; cases mat)
         (simp_all add: h5_keys_def sorted_keys read_key_def then_do_def read_group_cell
            read_group_gene m new_cell_def new_gene_def update_data_def)
  next
    case 2
    with assms(3) show ?thesis
      unfolding assms(1)
      by (cases pos; cases mat)
         (simp_all add: h5_keys_def sorted_keys read_key_def then_do_def read_group_cell
            read_group_gene m new_cell_def new_gene_def update_data_def
            bin_type_setter_def bin_type_check_def)
  next
    case 3
    with assms(3) show ?thesis
      unfolding assms(1)
      by (cases pos; cases mat)
         (simp_all add: h5_keys_def sorted_keys read_key_def then_do_def read_group_cell
            read_group_gene m new_cell_def new_gene_def update_data_def
            bin_type_setter_def bin_type_check_def)
  qed
qed


lemma map_of_store_file: "map_of (files (store_file path f w)) path = Some f"
  by (simp add: store_file_def)

lemma h5ad_round_trip_result:
  assumes "valid_data w self"
    and "output_path (data_objs w ! self) = Some path"
    and "bin_type (data_objs w ! self) \<in> {None, Some ''bins'', Some ''cell_bins''}"
    and "write_h5ad w self = (r1, w1)"
    and "StereoExpData w1 (Some path) (Some ''h5ad'') None 100 None (Inr None) (Inr None)
           None None 1 = (rd, w2)"
    and "read_h5ad w2 rd = (r3, w3)"
  shows "r1 = Inr () \<and> r3 = Inr rd \<and> rd \<noteq> self
    \<and> exp_matrix (data_objs w3 ! rd) = exp_matrix (data_objs w ! self)
    \<and> position (data_objs w3 ! rd) = position (data_objs w ! self)
    \<and> bin_type (data_objs w3 ! rd) = bin_type (data_objs w ! self)
    \<and> cell_name (cell_objs w3 ! cells_ref (data_objs w3 ! rd))
        = cell_name (cell_objs w ! cells_ref (data_objs w ! self))
    \<and> total_counts (cell_objs w3 ! cells_ref (data_objs w3 ! rd))
        = total_counts (cell_objs w ! cells_ref (data_objs w ! self))
    \<and> pct_counts_mt (cell_objs w3 ! cells_ref (data_objs w3 ! rd))
        = pct_counts_mt (cell_objs w ! cells_ref (data_objs w ! self))
    \<and> n_genes_by_counts (cell_objs w3 ! cells_ref (data_objs w3 ! rd))
        = n_genes_by_counts (cell_objs w ! cells_ref (data_objs w ! self))
    \<and> gene_objs w3 ! genes_ref (data_objs w3 ! rd)
        = gene_objs w ! genes_ref (data_objs w ! self)
    \<and> data_objs w3 ! self = data_objs w ! self"
proof -
  define d where "d = data_objs w ! self"
  define f where "f = [(''genes'', Group ''gene'' (gene_members (gene_objs w ! genes_ref d))),
         (''cells'', Group ''cell'' (cell_members (cell_objs w ! cells_ref d)))]
        @ (case position d of
             None \<Rightarrow> [] | Some a \<Rightarrow> [(''position'', Dataset (H5Array2 a))])
        @ (case exp_matrix d of
             None \<Rightarrow> []
           | Some m \<Rightarrow>
               [(''exp_matrix'',
                 if repr m = Dense then Dataset (H5Matrix (n_cols m) (vals m))
                 else Group (if repr m = CSR then ''csr'' else ''csc'')
                        [(''data'', H5Matrix (n_cols m) (vals m))])])
        @ (case bin_type d of
             None \<Rightarrow> [] | Some b \<Rightarrow> [(''bin_type'', Dataset (H5Str b))])"
  have v: "self < length (data_objs w)"
    using assms(1) by (simp add: valid_data_def)
  have w1: "r1 = Inr ()" "w1 = store_file path f w"
    using write_h5ad_ok [OF assms(2)] assms(4) by (simp_all add: f_def d_def)
  have o1: "data_objs w1 = data_objs w" "cell_objs w1 = cell_objs w" "gene_objs w1 = gene_objs w"
    by (simp_all add: w1(2) store_file_def)
  have rd: "rd = length (data_objs w)"
    and w2: "data_objs w2 = data_objs w @
        [\<lparr>file_path = Some path, file_format = Some ''h5ad'', partitions = 1,
          output_path = None, exp_matrix = None, genes_ref = length (gene_objs w),
          cells_ref = length (cell_objs w), position = None, bin_type = None,
          bin_size_attr = 100\<rparr>]"
      "cell_objs w2 = cell_objs w @ [Cell None]" "gene_objs w2 = gene_objs w @ [Gene None]"
      "files w2 = files w1"
    using assms(5)
    by (auto simp: StereoExpData_def new_gene_def new_cell_def new_data_def o1)
  have fresh: "file_path (data_objs w2 ! rd) = Some path" "exp_matrix (data_objs w2 ! rd) = None"
      "position (data_objs w2 ! rd) = None" "bin_type (data_objs w2 ! rd) = None"
      "rd < length (data_objs w2)"
    by (simp_all add: rd w2(1))
  have fl: "map_of (files w2) path = Some f"
    by (simp add: w2(4) w1(2) map_of_store_file)
  from read_keys_back [OF f_def assms(3) [folded d_def] fresh(5)]
  obtain w' where r: "read_keys f (h5_keys f) w2 rd = (Inr (), w')"
    "cell_objs w' = cell_objs w2 @ [(cell_objs w ! cells_ref d)\<lparr>cell_point := None\<rparr>]"
    "gene_objs w' = gene_objs w2 @ [gene_objs w ! genes_ref d]"
    "\<forall>k. k \<noteq> rd \<longrightarrow> data_objs w' ! k = data_objs w2 ! k"
    "cells_ref (data_objs w' ! rd) = length (cell_objs w2)"
    "genes_ref (data_objs w' ! rd) = length (gene_objs w2)"
    "position (data_objs w' ! rd)
        = (case position d of None \<Rightarrow> position (data_objs w2 ! rd) | Some a \<Rightarrow> Some a)"
    "exp_matrix (data_objs w' ! rd)
        = (case exp_matrix d of None \<Rightarrow> exp_matrix (data_objs w2 ! rd) | Some m \<Rightarrow> Some m)"
    "bin_type (data_objs w' ! rd)
        = (case bin_type d of None \<Rightarrow> bin_type (data_objs w2 ! rd) | Some b \<Rightarrow> Some b)"
    by blast
  have r3: "r3 = Inr rd" "w3 = w'"
    using assms(6) by (simp_all add: read_h5ad_def fresh(1) fl r(1) then_do_def)
  have "rd \<noteq> self"
    using v rd by simp
  moreover have "exp_matrix (data_objs w3 ! rd) = exp_matrix d"
    "position (data_objs w3 ! rd) = position d" "bin_type (data_objs w3 ! rd) = bin_type d"
    unfolding r3(2) r(7,8,9) fresh(2,3,4) by (simp_all split: option.splits)
  moreover have "cell_objs w3 ! cells_ref (data_objs w3 ! rd)
      = (cell_objs w ! cells_ref d)\<lparr>cell_point := None\<rparr>"
    "gene_objs w3 ! genes_ref (data_objs w3 ! rd) = gene_objs w ! genes_ref d"
    unfolding r3(2) r(5,6) r(2,3) by simp_all
  moreover have "data_objs w3 ! self = d"
    using r(4) \<open>rd \<noteq> self\<close> v by (simp add: r3(2) w2(1) nth_append d_def)
  ultimately show ?thesis
    using w1(1) r3(1) by (simp add: d_def)
qed

lemma write_h5ad_no_output:
  assumes "output_path (data_objs w ! self) = None"
  shows "write_h5ad w self =
     (Inl (TypeError ''expected str, bytes or os.PathLike object, not NoneType''),
      logger_error ''the output path must be set before writting.'' w)"
  using assms by (simp add: write_h5ad_def Let_def)

text \<open>
  C1.  A dataset with an output path and a bin type of \<^verbatim>\<open>'bins'\<close>, \<^verbatim>\<open>'cell_bins'\<close> or
  \<^verbatim>\<open>None\<close> is written with \<^verbatim>\<open>write_h5ad\<close>; a new dataset created for the written file
  reads it with \<^verbatim>\<open>read_h5ad\<close>.  Both calls succeed, and the dataset read has the same
  matrix (representation, shape and values, for a dense, a csr and a csc matrix), the same
  position array, the same bin type, the same cell names and populated cell attribute
  arrays, and a Gene equal to the one written.  The dataset written is unchanged.
  \<^verbatim>\<open>h5ad.write\<close>, \<^verbatim>\<open>h5ad.read_group\<close> and \<^verbatim>\<open>h5ad.read_dataset\<close> are modelled from the
  spec.
\<close>

theorem h5ad_round_trip:
  assumes "valid_data w self"
    and "output_path (data_objs w ! self) = Some path"
    and "bin_type (data_objs w ! self) \<in> {None, Some ''bins'', Some ''cell_bins''}"
    and "write_h5ad w self = (r1, w1)"
    and "StereoExpData w1 (Some path) (Some ''h5ad'') None 100 None (Inr None) (Inr None)
           None None 1 = (rd, w2)"
    and "read_h5ad w2 rd = (r3, w3)"
  shows "r1 = Inr () \<and> r3 = Inr rd \<and> rd \<noteq> self
    \<and> exp_matrix (data_objs w3 ! rd) = exp_matrix (data_objs w ! self)
    \<and> position (data_objs w3 ! rd) = position (data_objs w ! self)
    \<and> bin_type (data_objs w3 ! rd) = bin_type (data_objs w ! self)
    \<and> cell_name (cell_objs w3 ! cells_ref (data_objs w3 ! rd))
        = cell_name (cell_objs w ! cells_ref (data_objs w ! self))
    \<and> total_counts (cell_objs w3 ! cells_ref (data_objs w3 ! rd))
        = total_counts (cell_objs w ! cells_ref (data_objs w ! self))
    \<and> pct_counts_mt (cell_objs w3 ! cells_ref (data_objs w3 ! rd))
        = pct_counts_mt (cell_objs w ! cells_ref (data_objs w ! self))
    \<and> n_genes_by_counts (cell_objs w3 ! cells_ref (data_objs w3 ! rd))
        = n_genes_by_counts (cell_objs w ! cells_ref (data_objs w ! self))
    \<and> gene_objs w3 ! genes_ref (data_objs w3 ! rd)
        = gene_objs w ! genes_ref (data_objs w ! self)
    \<and> data_objs w3 ! self = data_objs w ! self"
  using h5ad_round_trip_result [OF assms] .

theorem h5ad_round_trip_witness:
  "valid_data ex_world 0
   \<and> output_path (data_objs ex_world ! 0) = Some ''out.h5ad''
   \<and> bin_type (data_objs ex_world ! 0) = Some ''bins''
   \<and> fst (write_h5ad ex_world 0) = Inr ()
   \<and> fst (read_h5ad
        (snd (StereoExpData (snd (write_h5ad ex_world 0)) (Some ''out.h5ad'') (Some ''h5ad'')
                None 100 None (Inr None) (Inr None) None None 1))
        (fst (StereoExpData (snd (write_h5ad ex_world 0)) (Some ''out.h5ad'') (Some ''h5ad'')
                None 100 None (Inr None) (Inr None) None None 1)))
       = Inr (fst (StereoExpData (snd (write_h5ad ex_world 0)) (Some ''out.h5ad'')
                     (Some ''h5ad'') None 100 None (Inr None) (Inr None) None None 1))
   \<and> exp_matrix (data_objs (snd (read_h5ad
        (snd (StereoExpData (snd (write_h5ad ex_world 0)) (Some ''out.h5ad'') (Some ''h5ad'')
                None 100 None (Inr None) (Inr None) None None 1))
        (fst (StereoExpData (snd (write_h5ad ex_world 0)) (Some ''out.h5ad'') (Some ''h5ad'')
                None 100 None (Inr None) (Inr None) None None 1))))
        ! fst (StereoExpData (snd (write_h5ad ex_world 0)) (Some ''out.h5ad'') (Some ''h5ad'')
                None 100 None (Inr None) (Inr None) None None 1))
       = Some \<lparr>repr = CSR, n_cols = 2, vals = [[1, 0], [0, 2], [3, 4]]\<rparr>
   \<and> position (data_objs (snd (read_h5ad
        (snd (StereoExpData (snd (write_h5ad ex_world 0)) (Some ''out.h5ad'') (Some ''h5ad'')
                None 100 None (Inr None) (Inr None) None None 1))
        (fst (StereoExpData (snd (write_h5ad ex_world 0)) (Some ''out.h5ad'') (Some ''h5ad'')
                None 100 None (Inr None) (Inr None) None None 1))))
        ! fst (StereoExpData (snd (write_h5ad ex_world 0)) (Some ''out.h5ad'') (Some ''h5ad'')
                None 100 None (Inr None) (Inr None) None None 1))
       = Some [[IntV 50, IntV 50], [IntV 150, IntV 50], [IntV 50, IntV 150]]
   \<and> bin_type (data_objs (snd (read_h5ad
        (snd (StereoExpData (snd (write_h5ad ex_world 0)) (Some ''out.h5ad'') (Some ''h5ad'')
                None 100 None (Inr None) (Inr None) None None 1))
        (fst (StereoExpData (snd (write_h5ad ex_world 0)) (Some ''out.h5ad'') (Some ''h5ad'')
                None 100 None (Inr None) (Inr None) None None 1))))
        ! fst (StereoExpData (snd (write_h5ad ex_world 0)) (Some ''out.h5ad'') (Some ''h5ad'')
                None 100 None (Inr None) (Inr None) None None 1))
       = Some ''bins''"
proof -
  let ?i = "StereoExpData (snd (write_h5ad ex_world 0)) (Some ''out.h5ad'') (Some ''h5ad'')
                None 100 None (Inr None) (Inr None) None None 1"
  let ?r = "read_h5ad (snd ?i) (fst ?i)"
  have h1: "valid_data ex_world 0"
    by (simp add: valid_data_def ex_world_def ex_data_def)
  have h2: "output_path (data_objs ex_world ! 0) = Some ''out.h5ad''"
    by (simp add: ex_world_def ex_data_def)
  have e: "bin_type (data_objs ex_world ! 0) = Some ''bins''"
    "exp_matrix (data_objs ex_world ! 0)
       = Some \<lparr>repr = CSR, n_cols = 2, vals = [[1, 0], [0, 2], [3, 4]]\<rparr>"
    "position (data_objs ex_world ! 0)
       = Some [[IntV 50, IntV 50], [IntV 150, IntV 50], [IntV 50, IntV 150]]"
    by (simp_all add: ex_world_def ex_data_def)
  have h3: "bin_type (data_objs ex_world ! 0) \<in> {None, Some ''bins'', Some ''cell_bins''}"
    by (simp add: e(1))
  have h4: "write_h5ad ex_world 0 = (fst (write_h5ad ex_world 0), snd (write_h5ad ex_world 0))"
    and h5: "?i = (fst ?i, snd ?i)" and h6: "?r = (fst ?r, snd ?r)"
    by simp_all
  from h5ad_round_trip [OF h1 h2 h3 h4 h5 h6] h1 h2 show ?thesis
    unfolding e by blast
qed

text \<open>
  C8.  What the code does without an output path: \<^verbatim>\<open>write_h5ad\<close> logs the error, does not
  raise, and goes on to \<^verbatim>\<open>h5py.File(None, mode='w')\<close>; the call ends with the TypeError
  of h5py, and no file is written.
\<close>

theorem write_without_output_path:
  "output_path (data_objs ex_world_unset ! 0) = None
   \<and> write_h5ad ex_world_unset 0 =
       (Inl (TypeError ''expected str, bytes or os.PathLike object, not NoneType''),
        ex_world_unset\<lparr>logs := [(ERROR, ''the output path must be set before writting.'')]\<rparr>)
   \<and> write_data ex_world_unset 0 = write_h5ad ex_world_unset 0
   \<and> files (snd (write_data ex_world_unset 0)) = []"
proof -
  have o: "output_path (data_objs ex_world_unset ! 0) = None"
    by (simp add: ex_world_unset_def ex_world_def)
  have l: "logger_error ''the output path must be set before writting.'' ex_world_unset
      = ex_world_unset\<lparr>logs := [(ERROR, ''the output path must be set before writting.'')]\<rparr>"
    by (simp add: logger_error_def ex_world_unset_def ex_world_def)
  have f: "files ex_world_unset = []"
    by (simp add: ex_world_unset_def ex_world_def)
  show ?thesis
    using o f by (simp add: write_h5ad_no_output [OF o] l write_data_def)
qed

end
